theory Spec2Isabelle
  imports Complex_Main
begin

section \<open>Values shared by the screens\<close>

text \<open>
  A JavaScript string is a sequence of UTF-16 code units.  Identifiers, route paths,
  post contents and display texts are all values of this type.
\<close>

type_synonym jsstring = "nat list"

definition ascii :: "string \<Rightarrow> jsstring" where
  "ascii s = map of_char s"

text \<open>
  The value interpolated by a template literal \<^verbatim>\<open>`...${v}`\<close> for a string-valued
  property that may be absent: an absent property reads as \<^verbatim>\<open>undefined\<close>.
\<close>

definition template :: "jsstring option \<Rightarrow> jsstring" where
  "template v = (case v of None \<Rightarrow> ascii ''undefined'' | Some s \<Rightarrow> s)"

text \<open>Truthiness of a value of type \<^verbatim>\<open>string | null\<close>.\<close>

definition truthy_string :: "jsstring option \<Rightarrow> bool" where
  "truthy_string v = (case v of None \<Rightarrow> False | Some s \<Rightarrow> s \<noteq> [])"

text \<open>
  \<^verbatim>\<open>String.prototype.trim\<close> removes the code units of the ECMAScript classes
  WhiteSpace and LineTerminator from both ends.
\<close>

definition is_whitespace :: "nat \<Rightarrow> bool" where
  "is_whitespace c =
     (c = 9 \<or> c = 10 \<or> c = 11 \<or> c = 12 \<or> c = 13 \<or> c = 32 \<or> c = 160 \<or> c = 5760
      \<or> (8192 \<le> c \<and> c \<le> 8202) \<or> c = 8232 \<or> c = 8233 \<or> c = 8239 \<or> c = 8287
      \<or> c = 12288 \<or> c = 65279)"

definition trim :: "jsstring \<Rightarrow> jsstring" where
  "trim s = rev (dropWhile is_whitespace (rev (dropWhile is_whitespace s)))"

section \<open>Profile completion (ProfileScreen)\<close>

text \<open>
  The profile row is read with \<^verbatim>\<open>select('*')\<close> and indexed by field name, so it is an
  object whose properties hold JSON values; a property that is not there reads as
  \<^verbatim>\<open>undefined\<close>.
\<close>

datatype jsval =
  Undefined | Null | Bool bool | Num rat | Str jsstring | Arr "jsval list"
  | Obj "(string \<times> jsval) list"

type_synonym jsobject = "string \<Rightarrow> jsval"

fun truthy :: "jsval \<Rightarrow> bool" where
  "truthy Undefined = False"
| "truthy Null = False"
| "truthy (Bool b) = b"
| "truthy (Num n) = (n \<noteq> 0)"
| "truthy (Str s) = (s \<noteq> [])"
| "truthy (Arr xs) = True"
| "truthy (Obj kvs) = True"

definition PROFILE_FIELDS :: "string list" where
  "PROFILE_FIELDS =
     [''full_name'', ''avatar_url'', ''bio'', ''city'', ''experience_years'', ''skates'',
      ''sports'', ''skating_style'']"

text \<open>
  The filter predicate of \<^verbatim>\<open>completionPercentage\<close>:
  \<^verbatim>\<open>value && (Array.isArray(value) ? value.length > 0 : true)\<close>.
\<close>

definition field_completed :: "jsval \<Rightarrow> bool" where
  "field_completed v = (truthy v \<and> (case v of Arr xs \<Rightarrow> length xs > 0 | _ \<Rightarrow> True))"

text \<open>
  \<^verbatim>\<open>Math.round((completedFields.length / PROFILE_FIELDS.length) * 100)\<close>.  The quotient
  of a count by 8 and its product with 100 are exact in binary floating point, so the
  arithmetic is that of the rationals; \<^verbatim>\<open>Math.round\<close> rounds halves up, as \<^const>\<open>round\<close>
  does.
\<close>

definition completionPercentage :: "jsobject option \<Rightarrow> int" where
  "completionPercentage profile =
     (case profile of
        None \<Rightarrow> 0
      | Some p \<Rightarrow>
          (let completedFields = filter (\<lambda>field. field_completed (p field)) PROFILE_FIELDS
           in round ((rat_of_nat (length completedFields) / rat_of_nat (length PROFILE_FIELDS)) * 100)))"

definition isVerified :: "jsobject option \<Rightarrow> bool" where
  "isVerified profile =
     (case profile of None \<Rightarrow> False | Some p \<Rightarrow> completionPercentage profile \<ge> 80)"

text \<open>
  The number of the eight profile fields that are filled, counted as the set of field
  names whose value is truthy and, for an array, non-empty.
\<close>

definition filled_fields :: "jsobject \<Rightarrow> string set" where
  "filled_fields p =
     {f. f \<in> {''full_name'', ''avatar_url'', ''bio'', ''city'', ''experience_years'', ''skates'',
               ''sports'', ''skating_style''}
         \<and> truthy (p f) \<and> (case p f of Arr xs \<Rightarrow> xs \<noteq> [] | _ \<Rightarrow> True)}"

section \<open>Notification rendering (TabLayout)\<close>

text \<open>
  The \<^verbatim>\<open>Notification\<close> interface.  The declared type of \<^verbatim>\<open>type\<close> is a union of five
  string literals, but the value comes from the database, so at run time it is a string.
  \<^verbatim>\<open>data\<close> is the payload object; the two properties the renderer reads are optional.
\<close>

record NotificationUser =
  nu_full_name :: jsstring
  nu_avatar_url :: jsstring

record NotificationData =
  nd_post_id :: "jsstring option"
  nd_follower_id :: "jsstring option"

record Notification =
  n_id :: jsstring
  n_type :: jsstring
  n_data :: NotificationData
  n_read :: bool
  n_created_at :: int
  n_user :: NotificationUser

text \<open>
  What an \<^verbatim>\<open>onPress\<close> callback does when it is invoked: the state setter it calls and
  the route it pushes, in order.  The empty list is the callback \<^verbatim>\<open>() => {}\<close>.
\<close>

datatype effect = SetShowNotifications bool | RouterPush jsstring

record NotificationContent =
  nc_text :: jsstring
  nc_onPress :: "effect list"

definition text_like :: jsstring where
  "text_like = [32, 1083, 1072, 1081, 1082, 1085, 1091, 1083, 32, 1074, 1072, 1096, 32,
                1087, 1086, 1089, 1090]"

definition text_comment :: jsstring where
  "text_comment = [32, 1087, 1088, 1086, 1082, 1086, 1084, 1084, 1077, 1085, 1090, 1080, 1088,
                   1086, 1074, 1072, 1083, 32, 1074, 1072, 1096, 32, 1087, 1086, 1089, 1090]"

definition text_follow :: jsstring where
  "text_follow = [32, 1087, 1086, 1076, 1087, 1080, 1089, 1072, 1083, 1089, 1103, 32, 1085,
                  1072, 32, 1074, 1072, 1089]"

definition text_default :: jsstring where
  "text_default = [1053, 1086, 1074, 1086, 1077, 32, 1091, 1074, 1077, 1076, 1086, 1084, 1083,
                   1077, 1085, 1080, 1077]"

definition getNotificationContent :: "Notification \<Rightarrow> NotificationContent" where
  "getNotificationContent notification =
     (let user = n_user notification in
      if n_type notification = ascii ''like'' then
        \<lparr>nc_text = nu_full_name user @ text_like,
         nc_onPress = [SetShowNotifications False,
                       RouterPush (ascii ''/post/'' @ template (nd_post_id (n_data notification)))]\<rparr>
      else if n_type notification = ascii ''comment'' then
        \<lparr>nc_text = nu_full_name user @ text_comment,
         nc_onPress = [SetShowNotifications False,
                       RouterPush (ascii ''/post/'' @ template (nd_post_id (n_data notification)))]\<rparr>
      else if n_type notification = ascii ''follow'' then
        \<lparr>nc_text = nu_full_name user @ text_follow,
         nc_onPress = [SetShowNotifications False,
                       RouterPush (ascii ''/'' @ template (nd_follower_id (n_data notification)))]\<rparr>
      else
        \<lparr>nc_text = text_default, nc_onPress = []\<rparr>)"

section \<open>Calls to the backend\<close>

text \<open>
  Every backend call is awaited.  An awaited promise either resolves to a value or
  rejects, which throws at the \<^verbatim>\<open>await\<close>.  A query resolves to an object with the
  properties \<^verbatim>\<open>data\<close>, \<^verbatim>\<open>count\<close> and \<^verbatim>\<open>error\<close>; a failed query resolves with \<^verbatim>\<open>error\<close> set.
  The handlers are written against the calls they make: a call takes the state of
  everything outside the component (the backend, the router) and returns the awaited
  outcome with the new outside state.
\<close>

datatype err = Error jsstring

datatype 'a awaited = Resolved 'a | Rejected err

datatype 'a response = Response (data: "'a option") (count: "int option") (error: "err option")

type_synonym ('a, 'w) call = "'w \<Rightarrow> 'a awaited \<times> 'w"

text \<open>The \<^verbatim>\<open>user\<close> that \<^verbatim>\<open>supabase.auth.getUser()\<close> resolves with, or null.\<close>

datatype User = User (uid: jsstring)

section \<open>Feed (FeedScreen)\<close>

text \<open>
  A row of the feed query
  \<^verbatim>\<open>select('*, user:profiles(full_name, avatar_url), likes(user_id), comments:comments(count)')\<close>:
  the post columns, the embedded author, the embedded like rows (each a \<^verbatim>\<open>user_id\<close>) and
  the embedded comment count rows (each a \<^verbatim>\<open>count\<close>).  An embedded property may be
  absent.  A creation timestamp is represented by its instant.
\<close>

record PostAuthor =
  pa_full_name :: jsstring
  pa_avatar_url :: jsstring

record PostColumns =
  post_id :: jsstring
  post_user_id :: jsstring
  post_content :: jsstring
  post_image_url :: "jsstring option"
  post_latitude :: "rat option"
  post_longitude :: "rat option"
  post_created_at :: int
  post_user :: "PostAuthor option"

record FeedRow = PostColumns +
  row_likes :: "jsstring list option"
  row_comments :: "int list option"

text \<open>The \<^verbatim>\<open>Post\<close> interface of the feed screen.\<close>

record Post = PostColumns +
  likes :: int
  comments_count :: int
  liked_by_user :: bool

record FeedScreen =
  posts :: "Post list"
  isCreating :: bool
  content :: jsstring
  selectedImage :: "jsstring option"
  location :: "(rat \<times> rat) option"
  isLoading :: bool
  refreshing :: bool

text \<open>The body of \<^verbatim>\<open>data.map(post => ...)\<close> in \<^verbatim>\<open>fetchPosts\<close>.\<close>

definition postWithCounts :: "User \<Rightarrow> FeedRow \<Rightarrow> Post" where
  "postWithCounts user post =
     PostColumns.extend (PostColumns.truncate post)
       (Post.fields
          (case row_likes post of None \<Rightarrow> 0 | Some ls \<Rightarrow> int (length ls))
          (case row_comments post of None \<Rightarrow> 0 | Some [] \<Rightarrow> 0 | Some (c # _) \<Rightarrow> c)
          (case row_likes post of None \<Rightarrow> False | Some ls \<Rightarrow> list_ex (\<lambda>like. like = uid user) ls))"

definition fetchPosts ::
  "(User option, 'w) call \<Rightarrow> (FeedRow list response, 'w) call \<Rightarrow> FeedScreen \<Rightarrow> 'w \<Rightarrow> FeedScreen \<times> 'w"
  where
  "fetchPosts getUser posts_select st w =
     (case getUser w of
        (Rejected e, w1) \<Rightarrow> (st, w1)
      | (Resolved None, w1) \<Rightarrow> (st, w1)
      | (Resolved (Some user), w1) \<Rightarrow>
          (case posts_select w1 of
             (Rejected e, w2) \<Rightarrow> (st, w2)
           | (Resolved r, w2) \<Rightarrow>
               if error r \<noteq> None then (st, w2)
               else (case data r of
                       None \<Rightarrow> (st, w2)
                     | Some rows \<Rightarrow> (st\<lparr>posts := map (postWithCounts user) rows\<rparr>, w2))))"

definition handleLike ::
  "(User option, 'w) call \<Rightarrow> (jsstring \<Rightarrow> jsstring \<Rightarrow> (unit response, 'w) call) \<Rightarrow>
   (jsstring \<Rightarrow> jsstring \<Rightarrow> (unit response, 'w) call) \<Rightarrow> jsstring \<Rightarrow> FeedScreen \<Rightarrow> 'w \<Rightarrow>
   FeedScreen \<times> 'w"
  where
  "handleLike getUser likes_delete_match likes_insert postId st w =
     (case getUser w of
        (Rejected e, w1) \<Rightarrow> (st, w1)
      | (Resolved None, w1) \<Rightarrow> (st, w1)
      | (Resolved (Some user), w1) \<Rightarrow>
          (case find (\<lambda>p. post_id p = postId) (posts st) of
             None \<Rightarrow> (st, w1)
           | Some post \<Rightarrow>
               (case (if liked_by_user post then likes_delete_match postId (uid user) w1
                      else likes_insert postId (uid user) w1) of
                  (Rejected e, w2) \<Rightarrow> (st, w2)
                | (Resolved r, w2) \<Rightarrow>
                    (st\<lparr>posts :=
                         map (\<lambda>p. if post_id p = postId
                                  then p\<lparr>likes := (if liked_by_user post then likes p - 1
                                                    else likes p + 1),
                                         liked_by_user := \<not> liked_by_user post\<rparr>
                                  else p)
                             (posts st)\<rparr>, w2))))"

text \<open>The decimal digits that string concatenation produces for \<^verbatim>\<open>Date.now()\<close>.\<close>

fun decimal :: "nat \<Rightarrow> jsstring" where
  "decimal n = (if n < 10 then [48 + n] else decimal (n div 10) @ [48 + n mod 10])"

declare decimal.simps [simp del]

text \<open>The row that \<^verbatim>\<open>handleCreatePost\<close> inserts into \<^verbatim>\<open>posts\<close>.\<close>

record NewPost =
  np_content :: jsstring
  np_image_url :: "jsstring option"
  np_latitude :: "rat option"
  np_longitude :: "rat option"

text \<open>
  \<^verbatim>\<open>handleCreatePost\<close>.  \<open>now\<close> is the value of \<^verbatim>\<open>Date.now()\<close>; \<open>storage_upload\<close> takes
  the object name and the URI of the file and resolves with the stored path;
  \<open>getPublicUrl\<close> is synchronous.  The upload step yields the image URL or the error it
  throws.
\<close>

definition handleCreatePost ::
  "nat \<Rightarrow> (jsstring \<Rightarrow> jsstring \<Rightarrow> (jsstring response, 'w) call) \<Rightarrow> (jsstring \<Rightarrow> jsstring) \<Rightarrow>
   (NewPost list \<Rightarrow> (unit response, 'w) call) \<Rightarrow>
   (User option, 'w) call \<Rightarrow> (FeedRow list response, 'w) call \<Rightarrow> FeedScreen \<Rightarrow> 'w \<Rightarrow>
   FeedScreen \<times> 'w"
  where
  "handleCreatePost now storage_upload getPublicUrl posts_insert getUser posts_select st w =
     (if trim (content st) = [] \<and> \<not> truthy_string (selectedImage st) then (st, w)
      else
        let st1 = st\<lparr>isLoading := True\<rparr>;
            (uploaded, w1) =
              (case selectedImage st of
                 None \<Rightarrow> (Inr None, w)
               | Some uri \<Rightarrow>
                   if uri = [] then (Inr None, w)
                   else (case storage_upload (ascii ''post-'' @ decimal now @ ascii ''.jpg'') uri w of
                           (Rejected e, w') \<Rightarrow> (Inl e, w')
                         | (Resolved r, w') \<Rightarrow>
                             (case error r of
                                Some e \<Rightarrow> (Inl e, w')
                              | None \<Rightarrow>
                                  (case data r of
                                     None \<Rightarrow> (Inl (Error (ascii ''TypeError'')), w')
                                   | Some path \<Rightarrow> (Inr (Some (getPublicUrl path)), w')))))
        in case uploaded of
             Inl e \<Rightarrow> (st1\<lparr>isLoading := False\<rparr>, w1)
           | Inr imageUrl \<Rightarrow>
               (case posts_insert
                       [\<lparr>np_content = content st, np_image_url = imageUrl,
                         np_latitude = map_option fst (location st),
                         np_longitude = map_option snd (location st)\<rparr>] w1 of
                  (Rejected e, w2) \<Rightarrow> (st1\<lparr>isLoading := False\<rparr>, w2)
                | (Resolved r, w2) \<Rightarrow>
                    if error r \<noteq> None then (st1\<lparr>isLoading := False\<rparr>, w2)
                    else fetchPosts getUser posts_select
                           (st1\<lparr>content := [], selectedImage := None, location := None,
                                isCreating := False, isLoading := False\<rparr>) w2))"

section \<open>Another user's profile (UserProfileScreen)\<close>

text \<open>
  The columns selected from \<^verbatim>\<open>profiles\<close>, the row of the profile query (with the embedded
  \<^verbatim>\<open>posts(count)\<close> rows) and the \<^verbatim>\<open>Profile\<close> interface of the screen.
\<close>

record ProfileColumns =
  profile_id :: jsstring
  full_name :: jsstring
  avatar_url :: jsstring
  bio :: jsstring
  sports :: "jsstring list"
  created_at :: int

record ProfileData = ProfileColumns +
  pd_posts :: "int list"

record Profile = ProfileColumns +
  followers_count :: int
  following_count :: int
  posts_count :: int
  is_following :: bool

record UserProfileScreen =
  profile :: "Profile option"
  loading :: bool
  followLoading :: bool
  currentUserId :: "jsstring option"

text \<open>\<^verbatim>\<open>rows[0]?.count || 0\<close> for a list of count rows.\<close>

definition first_count :: "int list \<Rightarrow> int" where
  "first_count rows = (case rows of [] \<Rightarrow> 0 | c # _ \<Rightarrow> c)"

text \<open>
  \<^verbatim>\<open>fetchProfile\<close> of the screen; \<open>ident\<close> is the route parameter \<^verbatim>\<open>id\<close>.  Every path through the
  \<^verbatim>\<open>try\<close> block ends in \<^verbatim>\<open>setLoading(false)\<close>.  Reading a property of a null \<^verbatim>\<open>data\<close>
  throws, which the \<^verbatim>\<open>catch\<close> swallows.
\<close>

definition UserProfileScreen_fetchProfile ::
  "(User option, 'w) call \<Rightarrow> (jsstring \<Rightarrow> (ProfileData response, 'w) call) \<Rightarrow>
   (jsstring \<Rightarrow> (int list response, 'w) call) \<Rightarrow> (jsstring \<Rightarrow> (int list response, 'w) call) \<Rightarrow>
   (jsstring \<Rightarrow> jsstring \<Rightarrow> (jsstring list response, 'w) call) \<Rightarrow>
   jsstring \<Rightarrow> UserProfileScreen \<Rightarrow> 'w \<Rightarrow> UserProfileScreen \<times> 'w"
  where
  "UserProfileScreen_fetchProfile getUser profiles_single follows_count_following
       follows_count_follower follows_select_id ident st w =
     (case getUser w of
        (Rejected e, w1) \<Rightarrow> (st\<lparr>loading := False\<rparr>, w1)
      | (Resolved None, w1) \<Rightarrow> (st\<lparr>loading := False\<rparr>, w1)
      | (Resolved (Some user), w1) \<Rightarrow>
     (case profiles_single ident w1 of
        (Rejected e, w2) \<Rightarrow> (st\<lparr>loading := False\<rparr>, w2)
      | (Resolved profileR, w2) \<Rightarrow>
     if error profileR \<noteq> None then (st\<lparr>loading := False\<rparr>, w2) else
     (case follows_count_following ident w2 of
        (Rejected e, w3) \<Rightarrow> (st\<lparr>loading := False\<rparr>, w3)
      | (Resolved followersR, w3) \<Rightarrow>
     if error followersR \<noteq> None then (st\<lparr>loading := False\<rparr>, w3) else
     (case follows_count_follower ident w3 of
        (Rejected e, w4) \<Rightarrow> (st\<lparr>loading := False\<rparr>, w4)
      | (Resolved followingR, w4) \<Rightarrow>
     if error followingR \<noteq> None then (st\<lparr>loading := False\<rparr>, w4) else
     (case follows_select_id (uid user) ident w4 of
        (Rejected e, w5) \<Rightarrow> (st\<lparr>loading := False\<rparr>, w5)
      | (Resolved isFollowingR, w5) \<Rightarrow>
     if error isFollowingR \<noteq> None then (st\<lparr>loading := False\<rparr>, w5) else
     (case (data followersR, data followingR, data profileR, data isFollowingR) of
        (Some followersData, Some followingData, Some profileData, Some isFollowingData) \<Rightarrow>
          (st\<lparr>profile := Some (ProfileColumns.extend (ProfileColumns.truncate profileData)
                               (Profile.fields (first_count followersData)
                                  (first_count followingData)
                                  (first_count (pd_posts profileData))
                                  (length isFollowingData > 0))),
              loading := False\<rparr>, w5)
      | _ \<Rightarrow> (st\<lparr>loading := False\<rparr>, w5)))))))"

text \<open>\<^verbatim>\<open>handleFollow\<close>.  The value the awaited delete or insert resolves to is not read.\<close>

definition handleFollow ::
  "(User option, 'w) call \<Rightarrow> (jsstring \<Rightarrow> jsstring \<Rightarrow> (unit response, 'w) call) \<Rightarrow>
   (jsstring \<Rightarrow> jsstring \<Rightarrow> (unit response, 'w) call) \<Rightarrow> UserProfileScreen \<Rightarrow> 'w \<Rightarrow>
   UserProfileScreen \<times> 'w"
  where
  "handleFollow getUser follows_delete_match follows_insert st w =
     (case profile st of
        None \<Rightarrow> (st, w)
      | Some p \<Rightarrow>
          (case getUser w of
             (Rejected e, w1) \<Rightarrow> (st\<lparr>followLoading := False\<rparr>, w1)
           | (Resolved None, w1) \<Rightarrow> (st\<lparr>followLoading := False\<rparr>, w1)
           | (Resolved (Some user), w1) \<Rightarrow>
               (case (if is_following p then follows_delete_match (uid user) (profile_id p) w1
                      else follows_insert (uid user) (profile_id p) w1) of
                  (Rejected e, w2) \<Rightarrow> (st\<lparr>followLoading := False\<rparr>, w2)
                | (Resolved r, w2) \<Rightarrow>
                    (st\<lparr>profile :=
                          Some (p\<lparr>followers_count :=
                                    (if is_following p then followers_count p - 1
                                     else followers_count p + 1),
                                  is_following := \<not> is_following p\<rparr>),
                        followLoading := False\<rparr>, w2))))"

text \<open>
  \<^verbatim>\<open>handleMessage\<close>.  The rows of the two lookups carry a \<^verbatim>\<open>chat_id\<close>, the inserted chat
  row its \<^verbatim>\<open>id\<close>; \<open>router_push\<close> is \<^verbatim>\<open>router.push\<close>.
\<close>

record ChatIdRow =
  chat_id :: jsstring

record ChatRow =
  cr_id :: jsstring

record ChatParticipant =
  cp_chat_id :: jsstring
  cp_user_id :: jsstring

definition handleMessage ::
  "(jsstring \<Rightarrow> (ChatIdRow list response, 'w) call) \<Rightarrow>
   (jsstring \<Rightarrow> jsstring list \<Rightarrow> (ChatIdRow response, 'w) call) \<Rightarrow>
   (ChatRow response, 'w) call \<Rightarrow> (ChatParticipant list \<Rightarrow> (unit response, 'w) call) \<Rightarrow>
   (jsstring \<Rightarrow> 'w \<Rightarrow> 'w) \<Rightarrow> UserProfileScreen \<Rightarrow> 'w \<Rightarrow> UserProfileScreen \<times> 'w"
  where
  "handleMessage participants_of_user participant_in_chats_single chats_insert_single
       participants_insert router_push st w =
     (case (profile st, currentUserId st) of
        (None, _) \<Rightarrow> (st, w)
      | (Some p, None) \<Rightarrow> (st, w)
      | (Some p, Some me) \<Rightarrow>
     if me = [] then (st, w) else
     (case participants_of_user me w of
        (Rejected e, w1) \<Rightarrow> (st, w1)
      | (Resolved r1, w1) \<Rightarrow>
     (case data r1 of
        None \<Rightarrow> (st, w1)
      | Some existingChats \<Rightarrow>
     (let chatIds = map chat_id existingChats in
      case participant_in_chats_single (profile_id p) chatIds w1 of
        (Rejected e, w2) \<Rightarrow> (st, w2)
      | (Resolved r2, w2) \<Rightarrow>
     (case data r2 of
        Some existingChat \<Rightarrow> (st, router_push (ascii ''/chat/'' @ chat_id existingChat) w2)
      | None \<Rightarrow>
     (case chats_insert_single w2 of
        (Rejected e, w3) \<Rightarrow> (st, w3)
      | (Resolved r3, w3) \<Rightarrow>
     if error r3 \<noteq> None then (st, w3) else
     (case data r3 of
        None \<Rightarrow> (st, w3)
      | Some newChat \<Rightarrow>
     (case participants_insert
             [\<lparr>cp_chat_id = cr_id newChat, cp_user_id = me\<rparr>,
              \<lparr>cp_chat_id = cr_id newChat, cp_user_id = profile_id p\<rparr>] w3 of
        (Rejected e, w4) \<Rightarrow> (st, w4)
      | (Resolved r4, w4) \<Rightarrow> (st, router_push (ascii ''/chat/'' @ cr_id newChat) w4)))))))))"

section \<open>Unread counts and notifications (TabLayout)\<close>

record TabLayout =
  unreadNotifications :: int
  unreadMessages :: int
  showNotifications :: bool
  notifications :: "Notification list"

text \<open>\<^verbatim>\<open>count || 0\<close> for the \<^verbatim>\<open>count\<close> of a head query.\<close>

definition count_or_zero :: "int option \<Rightarrow> int" where
  "count_or_zero c = (case c of None \<Rightarrow> 0 | Some n \<Rightarrow> n)"

definition fetchUnreadNotifications ::
  "(User option, 'w) call \<Rightarrow> (jsstring \<Rightarrow> (unit response, 'w) call) \<Rightarrow> TabLayout \<Rightarrow> 'w \<Rightarrow>
   TabLayout \<times> 'w"
  where
  "fetchUnreadNotifications getUser notifications_count_unread st w =
     (case getUser w of
        (Rejected e, w1) \<Rightarrow> (st\<lparr>unreadNotifications := 0\<rparr>, w1)
      | (Resolved None, w1) \<Rightarrow> (st, w1)
      | (Resolved (Some user), w1) \<Rightarrow>
          (case notifications_count_unread (uid user) w1 of
             (Rejected e, w2) \<Rightarrow> (st\<lparr>unreadNotifications := 0\<rparr>, w2)
           | (Resolved r, w2) \<Rightarrow> (st\<lparr>unreadNotifications := count_or_zero (count r)\<rparr>, w2)))"

definition fetchUnreadMessages ::
  "(User option, 'w) call \<Rightarrow> (jsstring \<Rightarrow> (ChatIdRow list response, 'w) call) \<Rightarrow>
   (jsstring list \<Rightarrow> jsstring \<Rightarrow> (unit response, 'w) call) \<Rightarrow> TabLayout \<Rightarrow> 'w \<Rightarrow>
   TabLayout \<times> 'w"
  where
  "fetchUnreadMessages getUser participants_of_user messages_count_unread st w =
     (case getUser w of
        (Rejected e, w1) \<Rightarrow> (st\<lparr>unreadMessages := 0\<rparr>, w1)
      | (Resolved None, w1) \<Rightarrow> (st, w1)
      | (Resolved (Some user), w1) \<Rightarrow>
          (case participants_of_user (uid user) w1 of
             (Rejected e, w2) \<Rightarrow> (st\<lparr>unreadMessages := 0\<rparr>, w2)
           | (Resolved r, w2) \<Rightarrow>
               (case data r of
                  None \<Rightarrow> (st, w2)
                | Some participatedChats \<Rightarrow>
                    (let chatIds = map chat_id participatedChats in
                     case messages_count_unread chatIds (uid user) w2 of
                       (Rejected e, w3) \<Rightarrow> (st\<lparr>unreadMessages := 0\<rparr>, w3)
                     | (Resolved c, w3) \<Rightarrow>
                         (st\<lparr>unreadMessages := count_or_zero (count c)\<rparr>, w3)))))"

definition fetchNotifications ::
  "(User option, 'w) call \<Rightarrow> (jsstring \<Rightarrow> (Notification list response, 'w) call) \<Rightarrow>
   TabLayout \<Rightarrow> 'w \<Rightarrow> TabLayout \<times> 'w"
  where
  "fetchNotifications getUser notifications_select st w =
     (case getUser w of
        (Rejected e, w1) \<Rightarrow> (st, w1)
      | (Resolved None, w1) \<Rightarrow> (st, w1)
      | (Resolved (Some user), w1) \<Rightarrow>
          (case notifications_select (uid user) w1 of
             (Rejected e, w2) \<Rightarrow> (st, w2)
           | (Resolved r, w2) \<Rightarrow>
               if error r \<noteq> None then (st, w2)
               else (st\<lparr>notifications := (case data r of None \<Rightarrow> [] | Some rows \<Rightarrow> rows)\<rparr>, w2)))"

text \<open>
  \<^verbatim>\<open>markNotificationsAsRead\<close>.  The value the awaited update resolves to is not read; the
  list is fetched again afterwards.
\<close>

definition markNotificationsAsRead ::
  "(User option, 'w) call \<Rightarrow> (jsstring \<Rightarrow> (unit response, 'w) call) \<Rightarrow>
   (jsstring \<Rightarrow> (Notification list response, 'w) call) \<Rightarrow> TabLayout \<Rightarrow> 'w \<Rightarrow> TabLayout \<times> 'w"
  where
  "markNotificationsAsRead getUser notifications_update_read notifications_select st w =
     (case getUser w of
        (Rejected e, w1) \<Rightarrow> (st, w1)
      | (Resolved None, w1) \<Rightarrow> (st, w1)
      | (Resolved (Some user), w1) \<Rightarrow>
          (case notifications_update_read (uid user) w1 of
             (Rejected e, w2) \<Rightarrow> (st, w2)
           | (Resolved r, w2) \<Rightarrow>
               fetchNotifications getUser notifications_select
                 (st\<lparr>unreadNotifications := 0\<rparr>) w2))"

section \<open>The signed-in user's profile (ProfileScreen)\<close>

text \<open>
  The state variables of the screen that \<^verbatim>\<open>fetchProfile\<close> sets.  The profile is the object
  read with \<^verbatim>\<open>select('*')\<close>, extended by the three counts.
\<close>

record ProfileScreen =
  own_profile :: "jsobject option"
  own_loading :: bool
  own_editedProfile :: jsobject
  own_error :: "jsstring option"

definition ProfileScreen_fetchProfile ::
  "(User option, 'w) call \<Rightarrow> (jsstring \<Rightarrow> (jsobject response, 'w) call) \<Rightarrow>
   (jsstring \<Rightarrow> (unit response, 'w) call) \<Rightarrow> (jsstring \<Rightarrow> (unit response, 'w) call) \<Rightarrow>
   (jsstring \<Rightarrow> (unit response, 'w) call) \<Rightarrow> ProfileScreen \<Rightarrow> 'w \<Rightarrow> ProfileScreen \<times> 'w"
  where
  "ProfileScreen_fetchProfile getUser profiles_single follows_count_following
       follows_count_follower posts_count_user st w =
     (let failed = st\<lparr>own_loading := False,
                       own_error := Some (ascii ''Failed to load profile data'')\<rparr> in
      case getUser w of
        (Rejected e, w1) \<Rightarrow> (failed, w1)
      | (Resolved None, w1) \<Rightarrow> (failed, w1)
      | (Resolved (Some user), w1) \<Rightarrow>
     (case profiles_single (uid user) w1 of
        (Rejected e, w2) \<Rightarrow> (failed, w2)
      | (Resolved profileR, w2) \<Rightarrow>
     if error profileR \<noteq> None then (failed, w2) else
     (case follows_count_following (uid user) w2 of
        (Rejected e, w3) \<Rightarrow> (failed, w3)
      | (Resolved followersR, w3) \<Rightarrow>
     if error followersR \<noteq> None then (failed, w3) else
     (case follows_count_follower (uid user) w3 of
        (Rejected e, w4) \<Rightarrow> (failed, w4)
      | (Resolved followingR, w4) \<Rightarrow>
     if error followingR \<noteq> None then (failed, w4) else
     (case posts_count_user (uid user) w4 of
        (Rejected e, w5) \<Rightarrow> (failed, w5)
      | (Resolved postsR, w5) \<Rightarrow>
     if error postsR \<noteq> None then (failed, w5) else
     (let profileData = (case data profileR of None \<Rightarrow> (\<lambda>field. Undefined) | Some row \<Rightarrow> row);
          profile = profileData
            (''followers_count'' := Num (of_int (count_or_zero (count followersR))),
             ''following_count'' := Num (of_int (count_or_zero (count followingR))),
             ''posts_count'' := Num (of_int (count_or_zero (count postsR))))
      in (st\<lparr>own_profile := Some profile, own_editedProfile := profile,
              own_loading := False\<rparr>, w5)))))))"

section \<open>The hosted backend\<close>

text \<open>
  Modelled from the spec: the backend is a hosted service and not part of the
  repository.  Section 6 of the specification names the interface the handlers consume:
  row query with filter, order and count mode and with nested selection of related
  tables, row insert, update-by-filter, delete-by-filter.  The tables are lists of rows;
  each call below is one query of the source with the meaning the client library
  documents for it, on a backend that does not fail.  The history of the router is kept
  beside the tables.
\<close>

record Message =
  m_id :: jsstring
  m_chat_id :: jsstring
  m_user_id :: jsstring
  m_read_at :: "int option"

record NotificationRecord = Notification +
  n_user_id :: jsstring

record world =
  w_follows :: "(jsstring \<times> jsstring) list"
  w_chats :: "jsstring list"
  w_chat_participants :: "ChatParticipant list"
  w_messages :: "Message list"
  w_notifications :: "NotificationRecord list"
  w_posts :: "PostColumns list"
  w_likes :: "(jsstring \<times> jsstring) list"
  w_comments :: "(jsstring \<times> jsstring) list"
  w_pushed :: "jsstring list"

text \<open>Modelled from the spec: \<^verbatim>\<open>auth.getUser()\<close> with the given user signed in.\<close>

definition signed_in :: "User \<Rightarrow> (User option, 'w) call" where
  "signed_in user w = (Resolved (Some user), w)"

text \<open>
  Modelled from the spec: a query that ends in \<^verbatim>\<open>.single()\<close> resolves with the row when
  the filter matches exactly one row, and with null data and an error when it matches
  none or several.
\<close>

definition pg_single :: "'a list \<Rightarrow> 'a response" where
  "pg_single rows =
     (case rows of
        [row] \<Rightarrow> Response (Some row) None None
      | _ \<Rightarrow> Response None None (Some (Error (ascii ''PGRST116''))))"

text \<open>
  Modelled from the spec: the follower count of \<^verbatim>\<open>UserProfileScreen\<close>,
  \<^verbatim>\<open>from('follows').select('count').eq('following_id', id)\<close>, one row holding the number
  of rows of \<open>follows\<close> (pairs of \<open>follower_id\<close> and \<open>following_id\<close>) that match.
\<close>

definition pg_follows_count_following :: "jsstring \<Rightarrow> (int list response, world) call" where
  "pg_follows_count_following ident w =
     (Resolved (Response (Some [int (length (filter (\<lambda>edge. snd edge = ident) (w_follows w)))])
                 None None), w)"

text \<open>
  Modelled from the spec: the follower count of \<^verbatim>\<open>ProfileScreen\<close>,
  \<^verbatim>\<open>select('*', { count: 'exact', head: true }).eq('following_id', id)\<close>: no rows, the
  exact number of matching rows in \<^verbatim>\<open>count\<close>.
\<close>

definition pg_follows_head_count_following :: "jsstring \<Rightarrow> (unit response, world) call" where
  "pg_follows_head_count_following ident w =
     (Resolved (Response None
                 (Some (int (length (filter (\<lambda>edge. snd edge = ident) (w_follows w))))) None), w)"

text \<open>
  Modelled from the spec:
  \<^verbatim>\<open>from('chat_participants').select('chat_id').eq('user_id', u)\<close>.
\<close>

definition pg_participants_of_user :: "jsstring \<Rightarrow> (ChatIdRow list response, world) call" where
  "pg_participants_of_user u w =
     (Resolved (Response
        (Some (map (\<lambda>row. \<lparr>chat_id = cp_chat_id row\<rparr>)
                 (filter (\<lambda>row. cp_user_id row = u) (w_chat_participants w))))
        None None), w)"

text \<open>
  Modelled from the spec:
  \<^verbatim>\<open>from('chat_participants').select('chat_id').eq('user_id', u).in('chat_id', ids).single()\<close>.
\<close>

definition pg_participant_in_chats_single ::
  "jsstring \<Rightarrow> jsstring list \<Rightarrow> (ChatIdRow response, world) call" where
  "pg_participant_in_chats_single u chatIds w =
     (Resolved (pg_single
        (map (\<lambda>row. \<lparr>chat_id = cp_chat_id row\<rparr>)
           (filter (\<lambda>row. cp_user_id row = u \<and> cp_chat_id row \<in> set chatIds)
              (w_chat_participants w)))), w)"

text \<open>
  Modelled from the spec: \<^verbatim>\<open>from('chats').insert({}).select().single()\<close>; \<open>new_id\<close> is
  the identifier the database generates for the row.
\<close>

definition pg_chats_insert_single :: "jsstring \<Rightarrow> (ChatRow response, world) call" where
  "pg_chats_insert_single new_id w =
     (Resolved (Response (Some \<lparr>cr_id = new_id\<rparr>) None None), w\<lparr>w_chats := w_chats w @ [new_id]\<rparr>)"

text \<open>Modelled from the spec: \<^verbatim>\<open>from('chat_participants').insert(rows)\<close>.\<close>

definition pg_participants_insert :: "ChatParticipant list \<Rightarrow> (unit response, world) call" where
  "pg_participants_insert rows w =
     (Resolved (Response None None None),
      w\<lparr>w_chat_participants := w_chat_participants w @ rows\<rparr>)"

text \<open>Modelled from the spec: \<^verbatim>\<open>router.push(path)\<close> records the route.\<close>

definition pg_router_push :: "jsstring \<Rightarrow> world \<Rightarrow> world" where
  "pg_router_push path w = w\<lparr>w_pushed := w_pushed w @ [path]\<rparr>"

text \<open>
  Modelled from the spec: the unread message count,
  \<^verbatim>\<open>from('messages').select('id', { count: 'exact', head: true }).in('chat_id', ids)\<close>
  \<^verbatim>\<open>.is('read_at', null).neq('user_id', u)\<close>.
\<close>

definition pg_messages_count_unread ::
  "jsstring list \<Rightarrow> jsstring \<Rightarrow> (unit response, world) call" where
  "pg_messages_count_unread chatIds u w =
     (Resolved (Response None
        (Some (int (length (filter (\<lambda>m. m_chat_id m \<in> set chatIds \<and> m_read_at m = None
                                         \<and> m_user_id m \<noteq> u) (w_messages w)))))
        None), w)"

text \<open>
  Modelled from the spec: the unread notification count,
  \<^verbatim>\<open>from('notifications').select('id', { count: 'exact', head: true }).eq('user_id', u)\<close>
  \<^verbatim>\<open>.eq('read', false)\<close>.
\<close>

definition pg_notifications_count_unread :: "jsstring \<Rightarrow> (unit response, world) call" where
  "pg_notifications_count_unread u w =
     (Resolved (Response None
        (Some (int (length (filter (\<lambda>n. n_user_id n = u \<and> n_read n = False)
                              (w_notifications w)))))
        None), w)"

text \<open>
  Modelled from the spec:
  \<^verbatim>\<open>from('notifications').update({ read: true }).eq('user_id', u).eq('read', false)\<close>.
\<close>

definition pg_notifications_update_read :: "jsstring \<Rightarrow> (unit response, world) call" where
  "pg_notifications_update_read u w =
     (Resolved (Response None None None),
      w\<lparr>w_notifications :=
           map (\<lambda>n. if n_user_id n = u \<and> n_read n = False then n\<lparr>n_read := True\<rparr> else n)
             (w_notifications w)\<rparr>)"

text \<open>
  Modelled from the spec: the notification list,
  \<^verbatim>\<open>from('notifications').select('*, user:profiles(...)').eq('user_id', u)\<close>
  \<^verbatim>\<open>.order('created_at', { ascending: false })\<close>.
\<close>

definition pg_notifications_select :: "jsstring \<Rightarrow> (Notification list response, world) call" where
  "pg_notifications_select u w =
     (Resolved (Response
        (Some (map Notification.truncate
                 (rev (sort_key n_created_at
                         (filter (\<lambda>n. n_user_id n = u) (w_notifications w))))))
        None None), w)"

text \<open>
  Modelled from the spec: the feed query,
  \<^verbatim>\<open>from('posts').select('*, user:profiles(...), likes(user_id), comments:comments(count)')\<close>
  \<^verbatim>\<open>.order('created_at', { ascending: false })\<close>.  \<open>likes\<close> holds pairs of \<open>post_id\<close> and
  \<open>user_id\<close>, \<open>comments\<close> pairs of comment identifier and \<open>post_id\<close>.
\<close>

definition pg_feed_row :: "world \<Rightarrow> PostColumns \<Rightarrow> FeedRow" where
  "pg_feed_row w p =
     PostColumns.extend p
       (FeedRow.fields
          (Some (map snd (filter (\<lambda>like. fst like = post_id p) (w_likes w))))
          (Some [int (length (filter (\<lambda>c. snd c = post_id p) (w_comments w)))]))"

definition pg_posts_select_feed :: "(FeedRow list response, world) call" where
  "pg_posts_select_feed w =
     (Resolved (Response
        (Some (map (pg_feed_row w) (rev (sort_key post_created_at (w_posts w)))))
        None None), w)"

section \<open>Example inputs\<close>

text \<open>
  A backend in which the user \<open>u1\<close> is signed in and every insert or delete resolves with
  an error, and the screens it is used with: the profile of \<open>u2\<close>, not followed, with five
  followers; a feed with one post, not liked, with no likes.
\<close>

definition signed_in_u1 :: "(User option, unit) call" where
  "signed_in_u1 w = (Resolved (Some (User (ascii ''u1''))), w)"

definition failing_mutation :: "jsstring \<Rightarrow> jsstring \<Rightarrow> (unit response, unit) call" where
  "failing_mutation a b w = (Resolved (Response None None (Some (Error (ascii ''denied'')))), w)"

definition succeeding_mutation :: "jsstring \<Rightarrow> jsstring \<Rightarrow> (unit response, unit) call" where
  "succeeding_mutation a b w = (Resolved (Response None None None), w)"

definition profile_u2 :: Profile where
  "profile_u2 =
     \<lparr>profile_id = ascii ''u2'', full_name = ascii ''Bob'', avatar_url = [], bio = [],
      sports = [], created_at = 0, followers_count = 5, following_count = 2, posts_count = 1,
      is_following = False\<rparr>"

definition screen_u2 :: UserProfileScreen where
  "screen_u2 =
     \<lparr>profile = Some profile_u2, loading = False, followLoading = False,
      currentUserId = Some (ascii ''u1'')\<rparr>"

definition post_p1 :: Post where
  "post_p1 =
     \<lparr>post_id = ascii ''p1'', post_user_id = ascii ''u2'', post_content = ascii ''hello'',
      post_image_url = None, post_latitude = None, post_longitude = None, post_created_at = 10,
      post_user = None, likes = 0, comments_count = 0, liked_by_user = False\<rparr>"

definition feed_p1 :: FeedScreen where
  "feed_p1 =
     \<lparr>posts = [post_p1], isCreating = False, content = [], selectedImage = None,
      location = None, isLoading = False, refreshing = False\<rparr>"

text \<open>
  A backend state with three users.  \<open>u1\<close> and \<open>u2\<close> share the chat \<open>c1\<close>; \<open>u2\<close> and \<open>u3\<close>
  share \<open>c2\<close>.  Of the four messages only the first is unread for \<open>u1\<close>: the second is
  \<open>u1\<close>'s own, the third has been read, the fourth lies in a chat without \<open>u1\<close>.
\<close>

definition notification_row :: "jsstring \<Rightarrow> jsstring \<Rightarrow> bool \<Rightarrow> int \<Rightarrow> NotificationRecord" where
  "notification_row ident u r t =
     \<lparr>n_id = ident, n_type = ascii ''like'',
      n_data = \<lparr>nd_post_id = Some (ascii ''p1''), nd_follower_id = None\<rparr>,
      n_read = r, n_created_at = t,
      n_user = \<lparr>nu_full_name = ascii ''Ann'', nu_avatar_url = []\<rparr>, n_user_id = u\<rparr>"

definition post_row :: "jsstring \<Rightarrow> jsstring \<Rightarrow> int \<Rightarrow> PostColumns" where
  "post_row ident u t =
     \<lparr>post_id = ident, post_user_id = u, post_content = ascii ''hello'', post_image_url = None,
      post_latitude = None, post_longitude = None, post_created_at = t, post_user = None\<rparr>"

definition world_example :: world where
  "world_example =
     \<lparr>w_follows = [(ascii ''u1'', ascii ''u2''), (ascii ''u3'', ascii ''u2''),
                   (ascii ''u2'', ascii ''u1'')],
      w_chats = [ascii ''c1'', ascii ''c2''],
      w_chat_participants =
        [\<lparr>cp_chat_id = ascii ''c1'', cp_user_id = ascii ''u1''\<rparr>,
         \<lparr>cp_chat_id = ascii ''c1'', cp_user_id = ascii ''u2''\<rparr>,
         \<lparr>cp_chat_id = ascii ''c2'', cp_user_id = ascii ''u2''\<rparr>,
         \<lparr>cp_chat_id = ascii ''c2'', cp_user_id = ascii ''u3''\<rparr>],
      w_messages =
        [\<lparr>m_id = ascii ''m1'', m_chat_id = ascii ''c1'', m_user_id = ascii ''u2'', m_read_at = None\<rparr>,
         \<lparr>m_id = ascii ''m2'', m_chat_id = ascii ''c1'', m_user_id = ascii ''u1'', m_read_at = None\<rparr>,
         \<lparr>m_id = ascii ''m3'', m_chat_id = ascii ''c1'', m_user_id = ascii ''u2'', m_read_at = Some 5\<rparr>,
         \<lparr>m_id = ascii ''m4'', m_chat_id = ascii ''c2'', m_user_id = ascii ''u3'', m_read_at = None\<rparr>],
      w_notifications =
        [notification_row (ascii ''n1'') (ascii ''u1'') False 1,
         notification_row (ascii ''n2'') (ascii ''u1'') True 2,
         notification_row (ascii ''n3'') (ascii ''u2'') False 3],
      w_posts =
        [post_row (ascii ''p1'') (ascii ''u2'') 10, post_row (ascii ''p2'') (ascii ''u1'') 30,
         post_row (ascii ''p3'') (ascii ''u3'') 20],
      w_likes = [(ascii ''p1'', ascii ''u1''), (ascii ''p1'', ascii ''u2''), (ascii ''p2'', ascii ''u2'')],
      w_comments = [(ascii ''k1'', ascii ''p1'')],
      w_pushed = []\<rparr>"

definition tabs_example :: TabLayout where
  "tabs_example =
     \<lparr>unreadNotifications = 7, unreadMessages = 7, showNotifications = False, notifications = []\<rparr>"

definition feed_empty :: FeedScreen where
  "feed_empty =
     \<lparr>posts = [], isCreating = False, content = [], selectedImage = None, location = None,
      isLoading = False, refreshing = False\<rparr>"

text \<open>
  Calls that resolve without touching the backend state, and screens that have not loaded
  yet: a profile lookup that finds the row, count queries that resolve with no count row,
  with the count 2 and (as a head query) with the count 3, and a follow lookup that finds
  one row.
\<close>

definition profile_found :: "jsstring \<Rightarrow> (ProfileData response, world) call" where
  "profile_found ident w =
     (Resolved (Response
        (Some \<lparr>profile_id = ident, full_name = ascii ''Bob'', avatar_url = [], bio = [],
               sports = [], created_at = 0, pd_posts = [1]\<rparr>) None None), w)"

definition count_rows_none :: "jsstring \<Rightarrow> (int list response, world) call" where
  "count_rows_none ident w = (Resolved (Response (Some []) None None), w)"

definition count_rows_two :: "jsstring \<Rightarrow> (int list response, world) call" where
  "count_rows_two ident w = (Resolved (Response (Some [2]) None None), w)"

definition follow_rows_one :: "jsstring \<Rightarrow> jsstring \<Rightarrow> (jsstring list response, world) call" where
  "follow_rows_one follower following w = (Resolved (Response (Some [ascii ''f1'']) None None), w)"

definition screen_loading :: UserProfileScreen where
  "screen_loading =
     \<lparr>profile = None, loading = True, followLoading = False, currentUserId = Some (ascii ''u1'')\<rparr>"

definition own_profile_found :: "jsstring \<Rightarrow> (jsobject response, world) call" where
  "own_profile_found ident w =
     (Resolved (Response (Some ((\<lambda>field. Undefined)(''id'' := Str ident))) None None), w)"

definition head_count_three :: "jsstring \<Rightarrow> (unit response, world) call" where
  "head_count_three ident w = (Resolved (Response None (Some 3) None), w)"

definition own_screen_loading :: ProfileScreen where
  "own_screen_loading =
     \<lparr>own_profile = None, own_loading = True, own_editedProfile = (\<lambda>field. Undefined),
      own_error = None\<rparr>"

text \<open>
  The backend state in which \<open>u1\<close> and \<open>u2\<close> are both participants of the two chats \<open>c1\<close>
  and \<open>c2\<close>.
\<close>

definition world_two_chats :: world where
  "world_two_chats =
     world_example\<lparr>w_chat_participants :=
        [\<lparr>cp_chat_id = ascii ''c1'', cp_user_id = ascii ''u1''\<rparr>,
         \<lparr>cp_chat_id = ascii ''c1'', cp_user_id = ascii ''u2''\<rparr>,
         \<lparr>cp_chat_id = ascii ''c2'', cp_user_id = ascii ''u1''\<rparr>,
         \<lparr>cp_chat_id = ascii ''c2'', cp_user_id = ascii ''u2''\<rparr>]\<rparr>"

section \<open>Profile completion: results\<close>

lemma distinct_PROFILE_FIELDS: "distinct PROFILE_FIELDS"
  by (simp add: PROFILE_FIELDS_def)

lemma length_PROFILE_FIELDS: "length PROFILE_FIELDS = 8"
  by (simp add: PROFILE_FIELDS_def)

lemma set_PROFILE_FIELDS:
  "set PROFILE_FIELDS =
     {''full_name'', ''avatar_url'', ''bio'', ''city'', ''experience_years'', ''skates'',
      ''sports'', ''skating_style''}"
  unfolding PROFILE_FIELDS_def by (simp only: list.set)

lemma field_completed_iff:
  "field_completed v = (truthy v \<and> (case v of Arr xs \<Rightarrow> xs \<noteq> [] | _ \<Rightarrow> True))"
  by (cases v) (simp_all add: field_completed_def)

lemma filled_fields_filter:
  "filled_fields p = set (filter (\<lambda>field. field_completed (p field)) PROFILE_FIELDS)"
  unfolding filled_fields_def set_filter set_PROFILE_FIELDS [symmetric] field_completed_iff
  by (rule refl)

lemma card_filled_fields:
  "card (filled_fields p) = length (filter (\<lambda>field. field_completed (p field)) PROFILE_FIELDS)"
  unfolding filled_fields_filter
  by (rule distinct_card) (simp add: distinct_PROFILE_FIELDS)

lemma card_filled_fields_le: "card (filled_fields p) \<le> 8"
  using length_filter_le [of "\<lambda>field. field_completed (p field)" PROFILE_FIELDS]
  by (simp add: card_filled_fields length_PROFILE_FIELDS)

lemma completionPercentage_card:
  "completionPercentage (Some p) = round ((rat_of_nat (card (filled_fields p)) / rat_of_nat 8) * 100)"
  by (simp only: completionPercentage_def card_filled_fields length_PROFILE_FIELDS option.case Let_def)

lemma round_eighths:
  assumes "k \<le> (8::nat)"
  shows "round ((rat_of_nat k / rat_of_nat 8) * 100) = round (100 * rat_of_nat k / 8)
         \<and> 0 \<le> round ((rat_of_nat k / rat_of_nat 8) * 100)
         \<and> round ((rat_of_nat k / rat_of_nat 8) * 100) \<le> 100
         \<and> (80 \<le> round ((rat_of_nat k / rat_of_nat 8) * 100)) = (7 \<le> k)"
proof -
  from assms have "k = 0 \<or> k = 1 \<or> k = 2 \<or> k = 3 \<or> k = 4 \<or> k = 5 \<or> k = 6 \<or> k = 7 \<or> k = 8"
    by arith
  then show ?thesis
    by (elim disjE) (simp_all add: round_def floor_eq_iff)
qed

text \<open>
  C10.  For a loaded profile the completion percentage is \<open>round (100 * k / 8)\<close>, where
  \<open>k\<close> is the number of the eight profile fields that are filled; it lies between 0 and
  100; and the verified badge holds exactly when the percentage is at least 80, which is
  exactly when at least seven of the eight fields are filled.
\<close>

theorem completionPercentage_spec:
  "completionPercentage (Some p) = round (100 * rat_of_nat (card (filled_fields p)) / 8)
   \<and> 0 \<le> completionPercentage (Some p) \<and> completionPercentage (Some p) \<le> 100
   \<and> isVerified (Some p) = (completionPercentage (Some p) \<ge> 80)
   \<and> isVerified (Some p) = (7 \<le> card (filled_fields p))"
proof -
  have v: "isVerified (Some p) = (completionPercentage (Some p) \<ge> 80)"
    by (simp only: isVerified_def option.case)
  show ?thesis
    unfolding v unfolding completionPercentage_card
    using round_eighths [OF card_filled_fields_le [of p]] by blast
qed

section \<open>Notification rendering: results\<close>

lemma ascii_types_distinct:
  "ascii ''like'' \<noteq> ascii ''comment''" "ascii ''like'' \<noteq> ascii ''follow''"
  "ascii ''comment'' \<noteq> ascii ''follow''"
  "ascii ''comment_like'' \<noteq> ascii ''like''" "ascii ''comment_like'' \<noteq> ascii ''comment''"
  "ascii ''comment_like'' \<noteq> ascii ''follow''"
  "ascii ''reply'' \<noteq> ascii ''like''" "ascii ''reply'' \<noteq> ascii ''comment''"
  "ascii ''reply'' \<noteq> ascii ''follow''"
  by (simp_all add: ascii_def)

text \<open>
  C8, as the code has it.  A notification of type \<open>like\<close> or \<open>comment\<close> renders the actor's
  display name followed by the text of the type, and its press action closes the
  dropdown and navigates to the post named by the payload's \<open>post_id\<close>; a notification of
  type \<open>follow\<close> renders the name followed by its text and navigates to the profile named by
  the payload's \<open>follower_id\<close>.  Every other type, the enumerated types \<open>comment_like\<close> and
  \<open>reply\<close> among them, renders the generic placeholder with a press action that does
  nothing.
\<close>

theorem getNotificationContent_spec:
  "(n_type n = ascii ''like'' \<longrightarrow>
      getNotificationContent n =
        \<lparr>nc_text = nu_full_name (n_user n) @ text_like,
         nc_onPress = [SetShowNotifications False,
                       RouterPush (ascii ''/post/'' @ template (nd_post_id (n_data n)))]\<rparr>)
   \<and> (n_type n = ascii ''comment'' \<longrightarrow>
      getNotificationContent n =
        \<lparr>nc_text = nu_full_name (n_user n) @ text_comment,
         nc_onPress = [SetShowNotifications False,
                       RouterPush (ascii ''/post/'' @ template (nd_post_id (n_data n)))]\<rparr>)
   \<and> (n_type n = ascii ''follow'' \<longrightarrow>
      getNotificationContent n =
        \<lparr>nc_text = nu_full_name (n_user n) @ text_follow,
         nc_onPress = [SetShowNotifications False,
                       RouterPush (ascii ''/'' @ template (nd_follower_id (n_data n)))]\<rparr>)
   \<and> (n_type n \<noteq> ascii ''like'' \<and> n_type n \<noteq> ascii ''comment'' \<and> n_type n \<noteq> ascii ''follow'' \<longrightarrow>
      getNotificationContent n = \<lparr>nc_text = text_default, nc_onPress = []\<rparr>)
   \<and> (n_type n = ascii ''comment_like'' \<or> n_type n = ascii ''reply'' \<longrightarrow>
      getNotificationContent n = \<lparr>nc_text = text_default, nc_onPress = []\<rparr>)"
  by (auto simp: getNotificationContent_def Let_def ascii_types_distinct
        ascii_types_distinct [symmetric])

theorem getNotificationContent_spec_witness:
  "getNotificationContent
     \<lparr>n_id = ascii ''n1'', n_type = ascii ''like'',
      n_data = \<lparr>nd_post_id = Some (ascii ''p7''), nd_follower_id = None\<rparr>,
      n_read = False, n_created_at = 0,
      n_user = \<lparr>nu_full_name = ascii ''Ann'', nu_avatar_url = []\<rparr>\<rparr>
   = \<lparr>nc_text = ascii ''Ann'' @ text_like,
      nc_onPress = [SetShowNotifications False, RouterPush (ascii ''/post/p7'')]\<rparr>
   \<and> getNotificationContent
     \<lparr>n_id = ascii ''n2'', n_type = ascii ''comment'',
      n_data = \<lparr>nd_post_id = Some (ascii ''p7''), nd_follower_id = None\<rparr>,
      n_read = False, n_created_at = 0,
      n_user = \<lparr>nu_full_name = ascii ''Ann'', nu_avatar_url = []\<rparr>\<rparr>
   = \<lparr>nc_text = ascii ''Ann'' @ text_comment,
      nc_onPress = [SetShowNotifications False, RouterPush (ascii ''/post/p7'')]\<rparr>
   \<and> getNotificationContent
     \<lparr>n_id = ascii ''n3'', n_type = ascii ''follow'',
      n_data = \<lparr>nd_post_id = None, nd_follower_id = Some (ascii ''u2'')\<rparr>,
      n_read = False, n_created_at = 0,
      n_user = \<lparr>nu_full_name = ascii ''Ann'', nu_avatar_url = []\<rparr>\<rparr>
   = \<lparr>nc_text = ascii ''Ann'' @ text_follow,
      nc_onPress = [SetShowNotifications False, RouterPush (ascii ''/u2'')]\<rparr>
   \<and> getNotificationContent
     \<lparr>n_id = ascii ''n4'', n_type = ascii ''reply'',
      n_data = \<lparr>nd_post_id = Some (ascii ''p7''), nd_follower_id = None\<rparr>,
      n_read = False, n_created_at = 0,
      n_user = \<lparr>nu_full_name = ascii ''Ann'', nu_avatar_url = []\<rparr>\<rparr>
   = \<lparr>nc_text = text_default, nc_onPress = []\<rparr>"
  using
    getNotificationContent_spec [of
      "\<lparr>n_id = ascii ''n1'', n_type = ascii ''like'',
        n_data = \<lparr>nd_post_id = Some (ascii ''p7''), nd_follower_id = None\<rparr>,
        n_read = False, n_created_at = 0,
        n_user = \<lparr>nu_full_name = ascii ''Ann'', nu_avatar_url = []\<rparr>\<rparr>"]
    getNotificationContent_spec [of
      "\<lparr>n_id = ascii ''n2'', n_type = ascii ''comment'',
        n_data = \<lparr>nd_post_id = Some (ascii ''p7''), nd_follower_id = None\<rparr>,
        n_read = False, n_created_at = 0,
        n_user = \<lparr>nu_full_name = ascii ''Ann'', nu_avatar_url = []\<rparr>\<rparr>"]
    getNotificationContent_spec [of
      "\<lparr>n_id = ascii ''n3'', n_type = ascii ''follow'',
        n_data = \<lparr>nd_post_id = None, nd_follower_id = Some (ascii ''u2'')\<rparr>,
        n_read = False, n_created_at = 0,
        n_user = \<lparr>nu_full_name = ascii ''Ann'', nu_avatar_url = []\<rparr>\<rparr>"]
    getNotificationContent_spec [of
      "\<lparr>n_id = ascii ''n4'', n_type = ascii ''reply'',
        n_data = \<lparr>nd_post_id = Some (ascii ''p7''), nd_follower_id = None\<rparr>,
        n_read = False, n_created_at = 0,
        n_user = \<lparr>nu_full_name = ascii ''Ann'', nu_avatar_url = []\<rparr>\<rparr>"]
  by (simp add: ascii_def template_def)

text \<open>
  The claim as stated fails for the enumerated type \<open>comment_like\<close>: two such
  notifications from different actors and about different posts render the same content,
  and pressing it navigates nowhere.
\<close>

theorem getNotificationContent_comment_like_counterexample:
  "getNotificationContent
     \<lparr>n_id = ascii ''n1'', n_type = ascii ''comment_like'',
      n_data = \<lparr>nd_post_id = Some (ascii ''p1''), nd_follower_id = None\<rparr>,
      n_read = False, n_created_at = 0,
      n_user = \<lparr>nu_full_name = ascii ''Ann'', nu_avatar_url = []\<rparr>\<rparr>
   = getNotificationContent
     \<lparr>n_id = ascii ''n2'', n_type = ascii ''comment_like'',
      n_data = \<lparr>nd_post_id = Some (ascii ''p2''), nd_follower_id = None\<rparr>,
      n_read = False, n_created_at = 0,
      n_user = \<lparr>nu_full_name = ascii ''Bob'', nu_avatar_url = []\<rparr>\<rparr>
   \<and> nc_onPress (getNotificationContent
     \<lparr>n_id = ascii ''n1'', n_type = ascii ''comment_like'',
      n_data = \<lparr>nd_post_id = Some (ascii ''p1''), nd_follower_id = None\<rparr>,
      n_read = False, n_created_at = 0,
      n_user = \<lparr>nu_full_name = ascii ''Ann'', nu_avatar_url = []\<rparr>\<rparr>) = []"
  by (simp add: getNotificationContent_def ascii_types_distinct)

section \<open>Post creation: results\<close>

text \<open>
  C5.  When the content is empty or consists of white space only and no image is
  selected, \<open>handleCreatePost\<close> returns at once: whatever the backend calls would do, none
  of them is made (the state outside the component is as it was) and the composer state
  is unchanged.
\<close>

theorem handleCreatePost_empty_rejected:
  assumes "trim (content st) = []" and "selectedImage st = None"
  shows "handleCreatePost now storage_upload getPublicUrl posts_insert getUser posts_select st w
         = (st, w)"
  using assms by (simp add: handleCreatePost_def truthy_string_def)

theorem handleCreatePost_empty_rejected_witness:
  "trim (content \<lparr>posts = [], isCreating = True, content = [32, 10, 9], selectedImage = None,
                   location = None, isLoading = False, refreshing = False\<rparr>) = []
   \<and> selectedImage \<lparr>posts = [], isCreating = True, content = [32, 10, 9], selectedImage = None,
                     location = None, isLoading = False, refreshing = False\<rparr> = None
   \<and> handleCreatePost 1700000000000
        (\<lambda>name uri log. (Resolved (Response (Some name) None None), log @ [ascii ''upload'']))
        (\<lambda>path. ascii ''https://cdn/'' @ path)
        (\<lambda>rows log. (Resolved (Response None None None), log @ [ascii ''insert'']))
        (\<lambda>log. (Resolved (Some (User (ascii ''u1''))), log @ [ascii ''getUser'']))
        (\<lambda>log. (Resolved (Response (Some []) None None), log @ [ascii ''select'']))
        \<lparr>posts = [], isCreating = True, content = [32, 10, 9], selectedImage = None,
         location = None, isLoading = False, refreshing = False\<rparr> []
      = (\<lparr>posts = [], isCreating = True, content = [32, 10, 9], selectedImage = None,
          location = None, isLoading = False, refreshing = False\<rparr>, [])"
proof -
  have t: "trim (content \<lparr>posts = [], isCreating = True, content = [32, 10, 9],
                          selectedImage = None, location = None, isLoading = False,
                          refreshing = False\<rparr>) = []"
    by (simp add: trim_def is_whitespace_def)
  have i: "selectedImage \<lparr>posts = [], isCreating = True, content = [32, 10, 9],
                           selectedImage = None, location = None, isLoading = False,
                           refreshing = False\<rparr> = None"
    by simp
  show ?thesis
    using t i handleCreatePost_empty_rejected [OF t i] by simp
qed

section \<open>Follow and like toggles: results\<close>

text \<open>
  What \<open>handleFollow\<close> does once the profile is loaded and a user is signed in: the local
  update is applied whenever the awaited delete or insert resolves, and skipped only when
  it rejects.
\<close>

lemma handleFollow_resolved:
  assumes "profile st = Some p" and "getUser w = (Resolved (Some user), w1)"
    and "(if is_following p then follows_delete_match (uid user) (profile_id p) w1
          else follows_insert (uid user) (profile_id p) w1) = (Resolved r, w2)"
  shows "handleFollow getUser follows_delete_match follows_insert st w =
           (st\<lparr>profile := Some (p\<lparr>followers_count :=
                                     (if is_following p then followers_count p - 1
                                      else followers_count p + 1),
                                   is_following := \<not> is_following p\<rparr>),
               followLoading := False\<rparr>, w2)"
  using assms by (simp add: handleFollow_def)

lemma handleFollow_rejected:
  assumes "profile st = Some p" and "getUser w = (Resolved (Some user), w1)"
    and "(if is_following p then follows_delete_match (uid user) (profile_id p) w1
          else follows_insert (uid user) (profile_id p) w1) = (Rejected e, w2)"
  shows "handleFollow getUser follows_delete_match follows_insert st w =
           (st\<lparr>followLoading := False\<rparr>, w2)"
  using assms by (simp add: handleFollow_def)

text \<open>
  C1 at a failing input.  The insert into \<open>follows\<close> (into \<open>likes\<close>) resolves with an
  error; \<open>handleFollow\<close> still flips \<open>is_following\<close> and raises \<open>followers_count\<close> from 5 to 6,
  and \<open>handleLike\<close> still flips \<open>liked_by_user\<close> and raises \<open>likes\<close> from 0 to 1.
\<close>

theorem toggles_apply_update_on_error:
  "fst (handleFollow signed_in_u1 failing_mutation failing_mutation screen_u2 ())
     = screen_u2\<lparr>profile := Some (profile_u2\<lparr>followers_count := 6, is_following := True\<rparr>)\<rparr>
   \<and> fst (handleLike signed_in_u1 failing_mutation failing_mutation (ascii ''p1'') feed_p1 ())
     = feed_p1\<lparr>posts := [post_p1\<lparr>likes := 1, liked_by_user := True\<rparr>]\<rparr>"
  by (simp add: handleFollow_def handleLike_def signed_in_u1_def failing_mutation_def
        screen_u2_def profile_u2_def feed_p1_def post_p1_def)

text \<open>
  C3.  With a profile loaded, a signed-in user and a backend whose delete and insert
  succeed, two follow toggles in succession leave the profile, and so its \<open>is_following\<close>
  flag and its \<open>followers_count\<close>, as they were.
\<close>

theorem handleFollow_twice:
  assumes p: "profile st = Some p"
    and u: "\<And>w. \<exists>w'. getUser w = (Resolved (Some user), w')"
    and d: "\<And>a b w. \<exists>r w'. follows_delete_match a b w = (Resolved r, w') \<and> error r = None"
    and i: "\<And>a b w. \<exists>r w'. follows_insert a b w = (Resolved r, w') \<and> error r = None"
  shows "profile (fst (handleFollow getUser follows_delete_match follows_insert
                         (fst (handleFollow getUser follows_delete_match follows_insert st w))
                         (snd (handleFollow getUser follows_delete_match follows_insert st w))))
         = Some p"
proof -
  let ?p1 = "p\<lparr>followers_count := (if is_following p then followers_count p - 1
                                     else followers_count p + 1),
                is_following := \<not> is_following p\<rparr>"
  let ?st1 = "st\<lparr>profile := Some ?p1, followLoading := False\<rparr>"
  from u obtain w1 where g1: "getUser w = (Resolved (Some user), w1)" by blast
  have "\<exists>r w2. (if is_following p then follows_delete_match (uid user) (profile_id p) w1
                  else follows_insert (uid user) (profile_id p) w1) = (Resolved r, w2)"
    using d [of "uid user" "profile_id p" w1] i [of "uid user" "profile_id p" w1]
    by (cases "is_following p") auto
  then obtain r w2 where
    m1: "(if is_following p then follows_delete_match (uid user) (profile_id p) w1
          else follows_insert (uid user) (profile_id p) w1) = (Resolved r, w2)"
    by blast
  have first: "handleFollow getUser follows_delete_match follows_insert st w = (?st1, w2)"
    by (rule handleFollow_resolved
        [where getUser = getUser and follows_delete_match = follows_delete_match
           and follows_insert = follows_insert, OF p g1 m1])
  have p1: "profile ?st1 = Some ?p1" by simp
  from u obtain w3 where g2: "getUser w2 = (Resolved (Some user), w3)" by blast
  have "\<exists>r w4. (if is_following ?p1 then follows_delete_match (uid user) (profile_id ?p1) w3
                  else follows_insert (uid user) (profile_id ?p1) w3) = (Resolved r, w4)"
    using d [of "uid user" "profile_id p" w3] i [of "uid user" "profile_id p" w3]
    by (cases "is_following p") auto
  then obtain r' w4 where
    m2: "(if is_following ?p1 then follows_delete_match (uid user) (profile_id ?p1) w3
          else follows_insert (uid user) (profile_id ?p1) w3) = (Resolved r', w4)"
    by blast
  have second: "profile (fst (handleFollow getUser follows_delete_match follows_insert ?st1 w2))
                = Some p"
    unfolding handleFollow_resolved
        [where getUser = getUser and follows_delete_match = follows_delete_match
           and follows_insert = follows_insert, OF p1 g2 m2]
    by simp
  show ?thesis unfolding first fst_conv snd_conv by (rule second)
qed

theorem handleFollow_twice_witness:
  "profile screen_u2 = Some profile_u2
   \<and> profile (fst (handleFollow signed_in_u1 succeeding_mutation succeeding_mutation
                     (fst (handleFollow signed_in_u1 succeeding_mutation succeeding_mutation
                             screen_u2 ()))
                     (snd (handleFollow signed_in_u1 succeeding_mutation succeeding_mutation
                             screen_u2 ()))))
     = Some profile_u2"
proof -
  have p: "profile screen_u2 = Some profile_u2" by (simp add: screen_u2_def)
  have u: "\<And>w. \<exists>w'. signed_in_u1 w = (Resolved (Some (User (ascii ''u1''))), w')"
    by (simp add: signed_in_u1_def)
  have m: "\<And>a b w. \<exists>r w'. succeeding_mutation a b w = (Resolved r, w') \<and> error r = None"
    by (simp add: succeeding_mutation_def)
  show ?thesis
    using p handleFollow_twice [of screen_u2 profile_u2 signed_in_u1 "User (ascii ''u1'')"
        succeeding_mutation succeeding_mutation "()", OF p u m m]
    by simp
qed

section \<open>Unread messages: results\<close>

lemma participates_iff:
  "(c \<in> cp_chat_id ` {row \<in> set ps. cp_user_id row = u})
   = (\<exists>row \<in> set ps. cp_user_id row = u \<and> cp_chat_id row = c)"
  by auto

lemma fetchUnreadMessages_pg:
  "fetchUnreadMessages (signed_in user) pg_participants_of_user pg_messages_count_unread st w =
     (st\<lparr>unreadMessages :=
          int (length (filter
            (\<lambda>m. (\<exists>row \<in> set (w_chat_participants w).
                     cp_user_id row = uid user \<and> cp_chat_id row = m_chat_id m)
                 \<and> m_read_at m = None \<and> m_user_id m \<noteq> uid user)
            (w_messages w)))\<rparr>, w)"
  by (simp add: fetchUnreadMessages_def signed_in_def pg_participants_of_user_def
        pg_messages_count_unread_def count_or_zero_def participates_iff Let_def)

text \<open>
  C9.  With a user signed in, the unread-message count is the number of messages that
  lie in a chat in which the user has a participant row, have a null \<open>read_at\<close> and were
  written by somebody else; a further message written by the user leaves it as it is.
\<close>

theorem fetchUnreadMessages_counts:
  "fetchUnreadMessages (signed_in user) pg_participants_of_user pg_messages_count_unread st w =
     (st\<lparr>unreadMessages :=
          int (length (filter
            (\<lambda>m. (\<exists>row \<in> set (w_chat_participants w).
                     cp_user_id row = uid user \<and> cp_chat_id row = m_chat_id m)
                 \<and> m_read_at m = None \<and> m_user_id m \<noteq> uid user)
            (w_messages w)))\<rparr>, w)
   \<and> (\<forall>m. m_user_id m = uid user \<longrightarrow>
         unreadMessages (fst (fetchUnreadMessages (signed_in user) pg_participants_of_user
                                pg_messages_count_unread st (w\<lparr>w_messages := w_messages w @ [m]\<rparr>)))
         = unreadMessages (fst (fetchUnreadMessages (signed_in user) pg_participants_of_user
                                  pg_messages_count_unread st w)))"
  by (simp add: fetchUnreadMessages_pg)

theorem fetchUnreadMessages_counts_witness:
  "unreadMessages (fst (fetchUnreadMessages (signed_in (User (ascii ''u1''))) pg_participants_of_user
                          pg_messages_count_unread tabs_example world_example)) = 1
   \<and> m_user_id \<lparr>m_id = ascii ''m5'', m_chat_id = ascii ''c1'', m_user_id = ascii ''u1'',
                 m_read_at = None\<rparr> = uid (User (ascii ''u1''))
   \<and> unreadMessages
       (fst (fetchUnreadMessages (signed_in (User (ascii ''u1''))) pg_participants_of_user
               pg_messages_count_unread tabs_example
               (world_example\<lparr>w_messages := w_messages world_example @
                  [\<lparr>m_id = ascii ''m5'', m_chat_id = ascii ''c1'', m_user_id = ascii ''u1'',
                    m_read_at = None\<rparr>]\<rparr>))) = 1"
  using fetchUnreadMessages_counts [of "User (ascii ''u1'')" tabs_example world_example]
  by (simp add: world_example_def tabs_example_def ascii_def)

section \<open>Marking notifications as read: results\<close>

lemma update_read_fun:
  "(\<lambda>n::NotificationRecord. if n_user_id n = u \<and> n_read n = False then n\<lparr>n_read := True\<rparr> else n)
   = (\<lambda>n. if n_user_id n = u then n\<lparr>n_read := True\<rparr> else n)"
proof (rule ext)
  fix n :: NotificationRecord
  have "n_read n \<Longrightarrow> n\<lparr>n_read := True\<rparr> = n" by (cases n) simp
  then show "(if n_user_id n = u \<and> n_read n = False then n\<lparr>n_read := True\<rparr> else n)
             = (if n_user_id n = u then n\<lparr>n_read := True\<rparr> else n)"
    by auto
qed

lemma markNotificationsAsRead_pg:
  "unreadNotifications (fst (markNotificationsAsRead (signed_in user) pg_notifications_update_read
                               pg_notifications_select st w)) = 0"
  "snd (markNotificationsAsRead (signed_in user) pg_notifications_update_read
          pg_notifications_select st w)
   = w\<lparr>w_notifications :=
         map (\<lambda>n. if n_user_id n = uid user then n\<lparr>n_read := True\<rparr> else n) (w_notifications w)\<rparr>"
  by (simp_all add: markNotificationsAsRead_def signed_in_def pg_notifications_update_read_def
        fetchNotifications_def pg_notifications_select_def update_read_fun)

lemma fetchUnreadNotifications_pg:
  "fetchUnreadNotifications (signed_in user) pg_notifications_count_unread st w =
     (st\<lparr>unreadNotifications :=
          int (length (filter (\<lambda>n. n_user_id n = uid user \<and> n_read n = False) (w_notifications w)))\<rparr>, w)"
  by (simp add: fetchUnreadNotifications_def signed_in_def pg_notifications_count_unread_def
        count_or_zero_def)

lemma no_unread_after_update:
  "filter (\<lambda>n. n_user_id n = u \<and> n_read n = False)
     (map (\<lambda>n. if n_user_id n = u then n\<lparr>n_read := True\<rparr> else n) ns) = []"
  by (induction ns) auto

text \<open>
  C7.  With a user signed in, marking the notifications as read sets the unread counter
  to 0 and leaves the table as it was except that every row of the user has its read flag
  set; fetching the unread count afterwards, with no row inserted in between, gives 0.
\<close>

theorem markNotificationsAsRead_spec:
  "unreadNotifications (fst (markNotificationsAsRead (signed_in user) pg_notifications_update_read
                               pg_notifications_select st w)) = 0
   \<and> w_notifications (snd (markNotificationsAsRead (signed_in user) pg_notifications_update_read
                              pg_notifications_select st w))
     = map (\<lambda>n. if n_user_id n = uid user then n\<lparr>n_read := True\<rparr> else n) (w_notifications w)
   \<and> (\<forall>n \<in> set (w_notifications (snd (markNotificationsAsRead (signed_in user)
                       pg_notifications_update_read pg_notifications_select st w))).
         n_user_id n = uid user \<longrightarrow> n_read n)
   \<and> unreadNotifications
       (fst (fetchUnreadNotifications (signed_in user) pg_notifications_count_unread
               (fst (markNotificationsAsRead (signed_in user) pg_notifications_update_read
                       pg_notifications_select st w))
               (snd (markNotificationsAsRead (signed_in user) pg_notifications_update_read
                       pg_notifications_select st w)))) = 0"
  by (auto simp: markNotificationsAsRead_pg fetchUnreadNotifications_pg no_unread_after_update)

theorem markNotificationsAsRead_spec_witness:
  "unreadNotifications
     (fst (markNotificationsAsRead (signed_in (User (ascii ''u1''))) pg_notifications_update_read
             pg_notifications_select tabs_example world_example)) = 0
   \<and> map n_read
        (w_notifications
          (snd (markNotificationsAsRead (signed_in (User (ascii ''u1''))) pg_notifications_update_read
                  pg_notifications_select tabs_example world_example)))
     = [True, True, False]
   \<and> unreadNotifications
       (fst (fetchUnreadNotifications (signed_in (User (ascii ''u1''))) pg_notifications_count_unread
               (fst (markNotificationsAsRead (signed_in (User (ascii ''u1'')))
                       pg_notifications_update_read pg_notifications_select tabs_example
                       world_example))
               (snd (markNotificationsAsRead (signed_in (User (ascii ''u1'')))
                       pg_notifications_update_read pg_notifications_select tabs_example
                       world_example)))) = 0"
  using markNotificationsAsRead_spec [of "User (ascii ''u1'')" tabs_example world_example]
  by (simp add: world_example_def notification_row_def ascii_def)

section \<open>Feed: results\<close>

lemma postWithCounts_pg_feed_row:
  "PostColumns.truncate (postWithCounts user (pg_feed_row w p)) = p"
  "post_created_at (postWithCounts user (pg_feed_row w p)) = post_created_at p"
  "post_id (postWithCounts user (pg_feed_row w p)) = post_id p"
  "likes (postWithCounts user (pg_feed_row w p))
     = int (length (filter (\<lambda>like. fst like = post_id p) (w_likes w)))"
  "comments_count (postWithCounts user (pg_feed_row w p))
     = int (length (filter (\<lambda>c. snd c = post_id p) (w_comments w)))"
  "liked_by_user (postWithCounts user (pg_feed_row w p))
     = ((post_id p, uid user) \<in> set (w_likes w))"
  by (cases p; auto simp: postWithCounts_def pg_feed_row_def PostColumns.defs Post.defs
        FeedRow.defs list_ex_iff image_iff)+

lemma fetchPosts_pg:
  "fetchPosts (signed_in user) pg_posts_select_feed st w =
     (st\<lparr>posts := map (\<lambda>p. postWithCounts user (pg_feed_row w p))
                     (rev (sort_key post_created_at (w_posts w)))\<rparr>, w)"
  by (simp add: fetchPosts_def signed_in_def pg_posts_select_feed_def comp_def)

lemma descending_sort_key:
  fixes f :: "'a \<Rightarrow> int"
  assumes "distinct (map f xs)"
  shows "sorted_wrt (\<lambda>a b. a > b) (map f (rev (sort_key f xs)))"
proof -
  have d: "distinct (map f (sort_key f xs))"
    using assms by (simp add: distinct_map)
  have s: "sorted (map f (sort_key f xs))" by (rule sorted_sort_key)
  from s d have "sorted_wrt (<) (map f (sort_key f xs))" by (simp add: strict_sorted_iff)
  then show ?thesis by (simp add: rev_map [symmetric] sorted_wrt_rev)
qed

text \<open>
  C6.  With a viewer signed in and posts whose creation timestamps are pairwise distinct,
  the feed holds exactly the posts of the table, in strictly descending order of
  \<open>created_at\<close>; each carries the number of its like rows, the number of its comments, and a
  \<open>liked_by_user\<close> flag that is true exactly when the like edge of the post and the viewer
  exists.
\<close>

theorem fetchPosts_feed:
  assumes "distinct (map post_created_at (w_posts w))"
  shows "sorted_wrt (\<lambda>a b. a > b)
           (map post_created_at (posts (fst (fetchPosts (signed_in user) pg_posts_select_feed st w))))
   \<and> set (map PostColumns.truncate
             (posts (fst (fetchPosts (signed_in user) pg_posts_select_feed st w))))
       = set (w_posts w)
   \<and> length (posts (fst (fetchPosts (signed_in user) pg_posts_select_feed st w)))
       = length (w_posts w)
   \<and> (\<forall>p \<in> set (posts (fst (fetchPosts (signed_in user) pg_posts_select_feed st w))).
         likes p = int (length (filter (\<lambda>like. fst like = post_id p) (w_likes w)))
         \<and> comments_count p = int (length (filter (\<lambda>c. snd c = post_id p) (w_comments w)))
         \<and> liked_by_user p = ((post_id p, uid user) \<in> set (w_likes w)))"
proof -
  let ?rows = "rev (sort_key post_created_at (w_posts w))"
  let ?f = "\<lambda>p. postWithCounts user (pg_feed_row w p)"
  have r: "posts (fst (fetchPosts (signed_in user) pg_posts_select_feed st w)) = map ?f ?rows"
    by (simp add: fetchPosts_pg)
  have c1: "sorted_wrt (\<lambda>a b. a > b) (map post_created_at (map ?f ?rows))"
    using descending_sort_key [OF assms]
    by (simp add: comp_def postWithCounts_pg_feed_row)
  have c2: "set (map PostColumns.truncate (map ?f ?rows)) = set (w_posts w)"
    by (simp add: comp_def postWithCounts_pg_feed_row)
  have c3: "length (map ?f ?rows) = length (w_posts w)" by simp
  have c4: "\<forall>p \<in> set (map ?f ?rows).
         likes p = int (length (filter (\<lambda>like. fst like = post_id p) (w_likes w)))
         \<and> comments_count p = int (length (filter (\<lambda>c. snd c = post_id p) (w_comments w)))
         \<and> liked_by_user p = ((post_id p, uid user) \<in> set (w_likes w))"
    by (auto simp: postWithCounts_pg_feed_row)
  show ?thesis unfolding r using c1 c2 c3 c4 by blast
qed

theorem fetchPosts_feed_witness:
  "distinct (map post_created_at (w_posts world_example))
   \<and> map post_created_at
        (posts (fst (fetchPosts (signed_in (User (ascii ''u1''))) pg_posts_select_feed feed_empty
                       world_example))) = [30, 20, 10]
   \<and> map likes
        (posts (fst (fetchPosts (signed_in (User (ascii ''u1''))) pg_posts_select_feed feed_empty
                       world_example))) = [1, 0, 2]
   \<and> map comments_count
        (posts (fst (fetchPosts (signed_in (User (ascii ''u1''))) pg_posts_select_feed feed_empty
                       world_example))) = [0, 0, 1]
   \<and> map liked_by_user
        (posts (fst (fetchPosts (signed_in (User (ascii ''u1''))) pg_posts_select_feed feed_empty
                       world_example))) = [False, False, True]"
proof -
  have d: "distinct (map post_created_at (w_posts world_example))"
    by (simp add: world_example_def post_row_def)
  show ?thesis
    using d fetchPosts_feed [OF d, of "User (ascii ''u1'')" feed_empty]
    by (simp add: fetchPosts_pg world_example_def post_row_def postWithCounts_def pg_feed_row_def
          PostColumns.defs Post.defs FeedRow.defs ascii_def)
qed

section \<open>Profile readers: results\<close>

lemma UserProfileScreen_fetchProfile_resolved:
  assumes "getUser w = (Resolved (Some user), w1)"
    and "profiles_single ident w1 = (Resolved (Response (Some profileData) c1 None), w2)"
    and "follows_count_following ident w2 = (Resolved followersR, w3)"
    and "follows_count_follower ident w3 = (Resolved (Response (Some followingData) c3 None), w4)"
    and "follows_select_id (uid user) ident w4 = (Resolved (Response (Some isFollowingData) c4 None), w5)"
  shows "UserProfileScreen_fetchProfile getUser profiles_single follows_count_following
           follows_count_follower follows_select_id ident st w =
         (if error followersR \<noteq> None then (st\<lparr>loading := False\<rparr>, w3)
          else case data followersR of
                 None \<Rightarrow> (st\<lparr>loading := False\<rparr>, w5)
               | Some followersData \<Rightarrow>
                   (st\<lparr>profile := Some (ProfileColumns.extend (ProfileColumns.truncate profileData)
                               (Profile.fields (first_count followersData)
                                  (first_count followingData)
                                  (first_count (pd_posts profileData))
                                  (length isFollowingData > 0))),
                       loading := False\<rparr>, w5))"
  using assms by (simp add: UserProfileScreen_fetchProfile_def split: option.splits)

lemma ProfileScreen_fetchProfile_resolved:
  assumes "getUser w = (Resolved (Some user), w1)"
    and "profiles_single (uid user) w1 = (Resolved (Response (Some row) c1 None), w2)"
    and "follows_count_following (uid user) w2 = (Resolved followersR, w3)"
    and "follows_count_follower (uid user) w3 = (Resolved (Response d3 c3 None), w4)"
    and "posts_count_user (uid user) w4 = (Resolved (Response d4 c4 None), w5)"
  shows "ProfileScreen_fetchProfile getUser profiles_single follows_count_following
           follows_count_follower posts_count_user st w =
         (if error followersR \<noteq> None
          then (st\<lparr>own_loading := False,
                   own_error := Some (ascii ''Failed to load profile data'')\<rparr>, w3)
          else (st\<lparr>own_profile := Some (row
                      (''followers_count'' := Num (of_int (count_or_zero (count followersR))),
                       ''following_count'' := Num (of_int (count_or_zero c3)),
                       ''posts_count'' := Num (of_int (count_or_zero c4)))),
                   own_editedProfile := row
                      (''followers_count'' := Num (of_int (count_or_zero (count followersR))),
                       ''following_count'' := Num (of_int (count_or_zero c3)),
                       ''posts_count'' := Num (of_int (count_or_zero c4))),
                   own_loading := False\<rparr>, w5))"
  using assms by (simp add: ProfileScreen_fetchProfile_def Let_def)


text \<open>
  C2, as the code has it.  Let the profile lookup and the other relationship queries
  succeed.  When the follower-count query is answered by the backend, both profile
  readers report as \<open>followers_count\<close> the number of follow edges whose \<open>following_id\<close> is the
  profile id (with unique edges, the number of distinct such edges).  When the
  follower-count query resolves with an error, the reader fails and the profile on the
  screen stays as it was.  When it resolves without error and without a count (an empty
  row list in \<open>UserProfileScreen\<close>, a null count in \<open>ProfileScreen\<close>), the reader reports
  the count 0.
\<close>

theorem fetchProfile_followers_count:
  assumes ps: "\<And>w. profiles_single ident w = (Resolved (Response (Some profileData) None None), w)"
    and fg: "\<And>w. follows_count_follower ident w
                  = (Resolved (Response (Some followingData) None None), w)"
    and fi: "\<And>w. follows_select_id (uid user) ident w
                  = (Resolved (Response (Some isFollowingData) None None), w)"
    and ops: "\<And>w. own_profiles_single (uid user) w = (Resolved (Response (Some row) None None), w)"
    and ofg: "\<And>w. own_count_follower (uid user) w = (Resolved (Response None (Some n) None), w)"
    and opc: "\<And>w. own_posts_count (uid user) w = (Resolved (Response None (Some m) None), w)"
  shows
   "map_option followers_count
      (profile (fst (UserProfileScreen_fetchProfile (signed_in user) profiles_single
                       pg_follows_count_following follows_count_follower follows_select_id
                       ident st w)))
      = Some (int (length (filter (\<lambda>edge. snd edge = ident) (w_follows w))))
    \<and> (distinct (w_follows w) \<longrightarrow>
        map_option followers_count
          (profile (fst (UserProfileScreen_fetchProfile (signed_in user) profiles_single
                           pg_follows_count_following follows_count_follower follows_select_id
                           ident st w)))
        = Some (int (card {edge \<in> set (w_follows w). snd edge = ident})))
    \<and> profile (fst (UserProfileScreen_fetchProfile (signed_in user) profiles_single
                       (\<lambda>i v. (Resolved (Response d c (Some e)), v)) follows_count_follower
                       follows_select_id ident st w))
      = profile st
    \<and> map_option followers_count
        (profile (fst (UserProfileScreen_fetchProfile (signed_in user) profiles_single
                         (\<lambda>i v. (Resolved (Response (Some []) c None), v)) follows_count_follower
                         follows_select_id ident st w)))
      = Some 0
    \<and> map_option (\<lambda>p. p ''followers_count'')
        (own_profile (fst (ProfileScreen_fetchProfile (signed_in user) own_profiles_single
                             pg_follows_head_count_following own_count_follower own_posts_count
                             ost w)))
      = Some (Num (of_int (int (length (filter (\<lambda>edge. snd edge = uid user) (w_follows w))))))
    \<and> own_profile (fst (ProfileScreen_fetchProfile (signed_in user) own_profiles_single
                           (\<lambda>i v. (Resolved (Response du c (Some e)), v)) own_count_follower
                           own_posts_count ost w))
      = own_profile ost
    \<and> map_option (\<lambda>p. p ''followers_count'')
        (own_profile (fst (ProfileScreen_fetchProfile (signed_in user) own_profiles_single
                             (\<lambda>i v. (Resolved (Response du None None), v)) own_count_follower
                             own_posts_count ost w)))
      = Some (Num 0)"
proof -
  have g: "signed_in user w = (Resolved (Some user), w)" by (simp add: signed_in_def)
  have pgc: "pg_follows_count_following ident w =
      (Resolved (Response (Some [int (length (filter (\<lambda>edge. snd edge = ident) (w_follows w)))])
                  None None), w)"
    by (simp add: pg_follows_count_following_def)
  have pgh: "pg_follows_head_count_following (uid user) w =
      (Resolved (Response None
         (Some (int (length (filter (\<lambda>edge. snd edge = uid user) (w_follows w))))) None), w)"
    by (simp add: pg_follows_head_count_following_def)
  have card: "distinct (w_follows w) \<Longrightarrow>
      card {edge \<in> set (w_follows w). snd edge = ident}
      = length (filter (\<lambda>edge. snd edge = ident) (w_follows w))"
    using distinct_card [of "filter (\<lambda>edge. snd edge = ident) (w_follows w)"] by simp
  have c1: "map_option followers_count
      (profile (fst (UserProfileScreen_fetchProfile (signed_in user) profiles_single
                       pg_follows_count_following follows_count_follower follows_select_id
                       ident st w)))
      = Some (int (length (filter (\<lambda>edge. snd edge = ident) (w_follows w))))"
    unfolding UserProfileScreen_fetchProfile_resolved
        [where getUser = "signed_in user" and profiles_single = profiles_single
           and follows_count_following = pg_follows_count_following
           and follows_count_follower = follows_count_follower
           and follows_select_id = follows_select_id, OF g ps pgc fg fi]
    by (simp add: first_count_def ProfileColumns.defs Profile.defs)
  have c3: "profile (fst (UserProfileScreen_fetchProfile (signed_in user) profiles_single
                       (\<lambda>i v. (Resolved (Response d c (Some e)), v)) follows_count_follower
                       follows_select_id ident st w))
      = profile st"
    unfolding UserProfileScreen_fetchProfile_resolved
        [where getUser = "signed_in user" and profiles_single = profiles_single
           and follows_count_following = "\<lambda>i v. (Resolved (Response d c (Some e)), v)"
           and follows_count_follower = follows_count_follower
           and follows_select_id = follows_select_id, OF g ps refl fg fi]
    by simp
  have c4: "map_option followers_count
        (profile (fst (UserProfileScreen_fetchProfile (signed_in user) profiles_single
                         (\<lambda>i v. (Resolved (Response (Some []) c None), v)) follows_count_follower
                         follows_select_id ident st w)))
      = Some 0"
    unfolding UserProfileScreen_fetchProfile_resolved
        [where getUser = "signed_in user" and profiles_single = profiles_single
           and follows_count_following = "\<lambda>i v. (Resolved (Response (Some []) c None), v)"
           and follows_count_follower = follows_count_follower
           and follows_select_id = follows_select_id, OF g ps refl fg fi]
    by (simp add: first_count_def ProfileColumns.defs Profile.defs)
  have c5: "map_option (\<lambda>p. p ''followers_count'')
        (own_profile (fst (ProfileScreen_fetchProfile (signed_in user) own_profiles_single
                             pg_follows_head_count_following own_count_follower own_posts_count
                             ost w)))
      = Some (Num (of_int (int (length (filter (\<lambda>edge. snd edge = uid user) (w_follows w))))))"
    unfolding ProfileScreen_fetchProfile_resolved
        [where getUser = "signed_in user" and profiles_single = own_profiles_single
           and follows_count_following = pg_follows_head_count_following
           and follows_count_follower = own_count_follower
           and posts_count_user = own_posts_count, OF g ops pgh ofg opc]
    by (simp add: count_or_zero_def)
  have c6: "own_profile (fst (ProfileScreen_fetchProfile (signed_in user) own_profiles_single
                           (\<lambda>i v. (Resolved (Response du c (Some e)), v)) own_count_follower
                           own_posts_count ost w))
      = own_profile ost"
    unfolding ProfileScreen_fetchProfile_resolved
        [where getUser = "signed_in user" and profiles_single = own_profiles_single
           and follows_count_following = "\<lambda>i v. (Resolved (Response du c (Some e)), v)"
           and follows_count_follower = own_count_follower
           and posts_count_user = own_posts_count, OF g ops refl ofg opc]
    by simp
  have c7: "map_option (\<lambda>p. p ''followers_count'')
        (own_profile (fst (ProfileScreen_fetchProfile (signed_in user) own_profiles_single
                             (\<lambda>i v. (Resolved (Response du None None), v)) own_count_follower
                             own_posts_count ost w)))
      = Some (Num 0)"
    unfolding ProfileScreen_fetchProfile_resolved
        [where getUser = "signed_in user" and profiles_single = own_profiles_single
           and follows_count_following = "\<lambda>i v. (Resolved (Response du None None), v)"
           and follows_count_follower = own_count_follower
           and posts_count_user = own_posts_count, OF g ops refl ofg opc]
    by (simp add: count_or_zero_def)
  show ?thesis
    using c1 c3 c4 c5 c6 c7 card by simp
qed

theorem fetchProfile_followers_count_witness:
  "distinct (w_follows world_example)
   \<and> map_option followers_count
        (profile (fst (UserProfileScreen_fetchProfile (signed_in (User (ascii ''u1''))) profile_found
                         pg_follows_count_following count_rows_two follow_rows_one (ascii ''u2'')
                         screen_loading world_example)))
      = Some 2
   \<and> map_option (\<lambda>p. p ''followers_count'')
        (own_profile (fst (ProfileScreen_fetchProfile (signed_in (User (ascii ''u1'')))
                             own_profile_found pg_follows_head_count_following head_count_three
                             head_count_three own_screen_loading world_example)))
      = Some (Num 1)"
proof -
  have d: "distinct (w_follows world_example)" by (simp add: world_example_def ascii_def)
  have ps: "\<And>w. profile_found (ascii ''u2'') w
      = (Resolved (Response
           (Some \<lparr>profile_id = ascii ''u2'', full_name = ascii ''Bob'', avatar_url = [], bio = [],
                  sports = [], created_at = 0, pd_posts = [1]\<rparr>) None None), w)"
    by (simp add: profile_found_def)
  have fg: "\<And>w. count_rows_two (ascii ''u2'') w = (Resolved (Response (Some [2]) None None), w)"
    by (simp add: count_rows_two_def)
  have fi: "\<And>w. follow_rows_one (uid (User (ascii ''u1''))) (ascii ''u2'') w
      = (Resolved (Response (Some [ascii ''f1'']) None None), w)"
    by (simp add: follow_rows_one_def)
  have ops: "\<And>w. own_profile_found (uid (User (ascii ''u1''))) w
      = (Resolved (Response (Some ((\<lambda>field. Undefined)(''id'' := Str (uid (User (ascii ''u1'')))))) None None), w)"
    by (simp add: own_profile_found_def)
  have oc: "\<And>w. head_count_three (uid (User (ascii ''u1''))) w
      = (Resolved (Response None (Some 3) None), w)"
    by (simp add: head_count_three_def)
  show ?thesis
    using d fetchProfile_followers_count
        [where profiles_single = profile_found and follows_count_follower = count_rows_two
           and follows_select_id = follow_rows_one and own_profiles_single = own_profile_found
           and own_count_follower = head_count_three and own_posts_count = head_count_three
           and w = world_example and st = screen_loading and ost = own_screen_loading,
         OF ps fg fi ops oc oc]
    by (simp add: world_example_def ascii_def)
qed

text \<open>
  The claim as stated fails when the follower-count query resolves with an empty row
  list: two follow edges point at \<open>u2\<close>, and the reader reports the count 0.
\<close>

theorem fetchProfile_no_data_counterexample:
  "w_follows world_example
     = [(ascii ''u1'', ascii ''u2''), (ascii ''u3'', ascii ''u2''), (ascii ''u2'', ascii ''u1'')]
   \<and> map_option followers_count
        (profile (fst (UserProfileScreen_fetchProfile (signed_in (User (ascii ''u1''))) profile_found
                         count_rows_none count_rows_two follow_rows_one (ascii ''u2'')
                         screen_loading world_example)))
      = Some 0"
  by (simp add: UserProfileScreen_fetchProfile_def signed_in_def profile_found_def
        count_rows_none_def count_rows_two_def follow_rows_one_def world_example_def
        first_count_def ProfileColumns.defs Profile.defs)

section \<open>Messaging bootstrap: results\<close>

text \<open>
  What \<open>handleMessage\<close> does on the backend, for a loaded profile and a known current user.
  When exactly one participant row of the target lies in a chat of the current user, it
  navigates to that chat and inserts nothing.  Otherwise, when there is no such row or
  there are several, it inserts one chat, then the participant rows of the current user
  and of the target for that chat, and navigates to the new chat.
\<close>

lemma handleMessage_pg:
  assumes "profile st = Some p" and "currentUserId st = Some me" and "me \<noteq> []"
  shows "handleMessage pg_participants_of_user pg_participant_in_chats_single
           (pg_chats_insert_single new_id) pg_participants_insert pg_router_push st w =
         (case filter (\<lambda>row. cp_user_id row = profile_id p
                            \<and> (\<exists>mine \<in> set (w_chat_participants w).
                                  cp_user_id mine = me \<and> cp_chat_id mine = cp_chat_id row))
                 (w_chat_participants w) of
            [row] \<Rightarrow> (st, w\<lparr>w_pushed := w_pushed w @ [ascii ''/chat/'' @ cp_chat_id row]\<rparr>)
          | _ \<Rightarrow> (st, w\<lparr>w_chats := w_chats w @ [new_id],
                        w_chat_participants := w_chat_participants w @
                          [\<lparr>cp_chat_id = new_id, cp_user_id = me\<rparr>,
                           \<lparr>cp_chat_id = new_id, cp_user_id = profile_id p\<rparr>],
                        w_pushed := w_pushed w @ [ascii ''/chat/'' @ new_id]\<rparr>))"
proof -
  let ?shared = "filter (\<lambda>row. cp_user_id row = profile_id p
                            \<and> (\<exists>mine \<in> set (w_chat_participants w).
                                  cp_user_id mine = me \<and> cp_chat_id mine = cp_chat_id row))
                 (w_chat_participants w)"
  have q2: "pg_participant_in_chats_single (profile_id p)
              (map chat_id (map (\<lambda>row. \<lparr>chat_id = cp_chat_id row\<rparr>)
                 (filter (\<lambda>row. cp_user_id row = me) (w_chat_participants w)))) w
            = (Resolved (pg_single (map (\<lambda>row. \<lparr>chat_id = cp_chat_id row\<rparr>) ?shared)), w)"
    by (simp add: pg_participant_in_chats_single_def comp_def participates_iff)
  show ?thesis
  proof (cases ?shared)
    case Nil
    then show ?thesis
      using assms q2
      by (simp add: handleMessage_def pg_participants_of_user_def pg_single_def
            pg_chats_insert_single_def pg_participants_insert_def pg_router_push_def Let_def)
  next
    case (Cons row rest)
    then show ?thesis
      using assms q2
      by (cases rest)
         (simp_all add: handleMessage_def pg_participants_of_user_def pg_single_def
            pg_chats_insert_single_def pg_participants_insert_def pg_router_push_def Let_def)
  qed
qed

text \<open>
  C4 at a failing input.  \<open>u1\<close> opens a chat with \<open>u2\<close> while the two already share the
  chats \<open>c1\<close> and \<open>c2\<close>.  The lookup ends in \<^verbatim>\<open>.single()\<close> and matches two rows, so it
  resolves with null data; \<open>handleMessage\<close> then inserts a third chat with its two
  participant rows and navigates to it.
\<close>

theorem handleMessage_two_shared_chats:
  "handleMessage pg_participants_of_user pg_participant_in_chats_single
     (pg_chats_insert_single (ascii ''c3'')) pg_participants_insert pg_router_push
     screen_u2 world_two_chats
   = (screen_u2,
      world_two_chats
        \<lparr>w_chats := [ascii ''c1'', ascii ''c2'', ascii ''c3''],
         w_chat_participants :=
           [\<lparr>cp_chat_id = ascii ''c1'', cp_user_id = ascii ''u1''\<rparr>,
            \<lparr>cp_chat_id = ascii ''c1'', cp_user_id = ascii ''u2''\<rparr>,
            \<lparr>cp_chat_id = ascii ''c2'', cp_user_id = ascii ''u1''\<rparr>,
            \<lparr>cp_chat_id = ascii ''c2'', cp_user_id = ascii ''u2''\<rparr>,
            \<lparr>cp_chat_id = ascii ''c3'', cp_user_id = ascii ''u1''\<rparr>,
            \<lparr>cp_chat_id = ascii ''c3'', cp_user_id = ascii ''u2''\<rparr>],
         w_pushed := [ascii ''/chat/c3'']\<rparr>)"
  by (simp add: handleMessage_def pg_participants_of_user_def pg_participant_in_chats_single_def
        pg_single_def pg_chats_insert_single_def pg_participants_insert_def pg_router_push_def
        screen_u2_def profile_u2_def world_two_chats_def world_example_def ascii_def)

end
